theory Spec2Isabelle
  imports Complex_Main
begin

section \<open>Numbers and geometry (analysis.py)\<close>

text \<open>
  The Python code computes with floats. They are modelled by the reals: rounding error,
  infinities and NaN are outside the model. A landmark is the pair of its normalised
  \<open>x\<close> and \<open>y\<close> image coordinates (\<open>y\<close> grows downwards).
\<close>

type_synonym point = "real \<times> real"

text \<open>The library function \<open>atan2(y, x)\<close> of \<open>math\<close> and \<open>numpy\<close>, on the reals.\<close>

definition arctan2 :: "real \<Rightarrow> real \<Rightarrow> real" where
  "arctan2 y x =
     (if 0 < x then arctan (y / x)
      else if x < 0 \<and> 0 \<le> y then arctan (y / x) + pi
      else if x < 0 then arctan (y / x) - pi
      else if 0 < y then pi / 2
      else if y < 0 then - (pi / 2)
      else 0)"

definition degrees :: "real \<Rightarrow> real" where
  "degrees r = r * 180 / pi"

definition calculate_angle :: "point \<Rightarrow> point \<Rightarrow> point \<Rightarrow> real" where
  "calculate_angle a b c =
     (let radians = arctan2 (snd c - snd b) (fst c - fst b)
                  - arctan2 (snd a - snd b) (fst a - fst b);
          angle = \<bar>radians * 180 / pi\<bar>
      in if angle \<le> 180 then angle else 360 - angle)"

definition calculate_vector_angle :: "point \<Rightarrow> point \<Rightarrow> real" where
  "calculate_vector_angle point1 point2 =
     (let dx = fst point2 - fst point1;
          dy = snd point2 - snd point1
      in degrees (arctan2 dy dx))"

section \<open>Frames, phases and accumulators\<close>

text \<open>
  The landmarks that \<open>analyze_cricket_shot\<close> reads from one frame. A frame is
  \<open>None\<close> when the pose estimator found no landmarks: reading them raises, and the
  \<open>except\<close> clause skips the frame.
\<close>

record landmarks =
  left_shoulder :: point
  left_elbow :: point
  left_wrist :: point
  right_shoulder :: point
  nose :: point
  left_hip :: point
  left_knee :: point
  left_ankle :: point
  right_hip :: point
  right_knee :: point
  right_ankle :: point

type_synonym frame = "landmarks option"

datatype stage = UNKNOWN | STANCE | BACKLIFT | DOWNSWING | FOLLOW_THROUGH

text \<open>
  One entry of \<open>phase_data\<close>. Only the \<open>DOWNSWING\<close> entry of the source has the key
  \<open>elbow_angles\<close>; in the other entries the field stays empty and is never read.
\<close>

record phase_metrics =
  knee_angles :: "real list"
  leg_directions :: "real list"
  head_directions :: "real list"
  body_directions :: "real list"
  weight_transfers :: "real list"
  elbow_angles :: "real list"

text \<open>
  The dictionary \<open>phase_data\<close> has the four phases as keys; \<open>UNKNOWN\<close> is not a key,
  which the test \<open>stage in phase_data\<close> is written out as.
\<close>

type_synonym phase_data = "stage \<Rightarrow> phase_metrics"

definition empty_metrics :: phase_metrics where
  "empty_metrics = \<lparr>knee_angles = [], leg_directions = [], head_directions = [],
     body_directions = [], weight_transfers = [], elbow_angles = []\<rparr>"

definition empty_phase_data :: phase_data where
  "empty_phase_data = (\<lambda>_. empty_metrics)"

record run_state =
  stage :: stage
  follow_through_frames :: nat
  phase_data :: phase_data

definition initial_state :: run_state where
  "initial_state = \<lparr>stage = UNKNOWN, follow_through_frames = 0, phase_data = empty_phase_data\<rparr>"

definition FOLLOW_THROUGH_BUFFER :: nat where
  "FOLLOW_THROUGH_BUFFER = 30"

subsection \<open>The metrics of one frame\<close>

definition left_knee_angle :: "landmarks \<Rightarrow> real" where
  "left_knee_angle lm = calculate_angle (left_hip lm) (left_knee lm) (left_ankle lm)"

definition front_leg_direction :: "landmarks \<Rightarrow> real" where
  "front_leg_direction lm = calculate_vector_angle (left_knee lm) (left_hip lm)"

definition body_direction :: "landmarks \<Rightarrow> real" where
  "body_direction lm = calculate_vector_angle (right_shoulder lm) (left_shoulder lm)"

definition head_direction :: "landmarks \<Rightarrow> real" where
  "head_direction lm =
     (let shoulder_midpoint = ((fst (left_shoulder lm) + fst (right_shoulder lm)) / 2,
                               (snd (left_shoulder lm) + snd (right_shoulder lm)) / 2)
      in calculate_vector_angle shoulder_midpoint (nose lm))"

definition weight_transfer :: "landmarks \<Rightarrow> real" where
  "weight_transfer lm =
     (let hip_midpoint_x = (fst (left_hip lm) + fst (right_hip lm)) / 2;
          ankle_midpoint_x = (fst (left_ankle lm) + fst (right_ankle lm)) / 2
      in hip_midpoint_x - ankle_midpoint_x)"

definition elbow_angle :: "landmarks \<Rightarrow> real" where
  "elbow_angle lm = calculate_angle (left_shoulder lm) (left_elbow lm) (left_wrist lm)"

subsection \<open>One frame with landmarks\<close>

text \<open>The four \<open>if\<close> statements of the phase detection, each reading the updated \<open>stage\<close>.\<close>

definition detect_phase :: "landmarks \<Rightarrow> stage \<Rightarrow> stage" where
  "detect_phase lm stage0 =
     (let s1 = (if stage0 = UNKNOWN then STANCE else stage0);
          s2 = (if (s1 = STANCE \<or> s1 = BACKLIFT) \<and> snd (left_wrist lm) < snd (nose lm) * 1.1
                then BACKLIFT else s1);
          s3 = (if s2 = BACKLIFT \<and> snd (left_wrist lm) > snd (nose lm) * 0.9
                then DOWNSWING else s2);
          s4 = (if s3 = DOWNSWING \<and> fst (left_wrist lm) > fst (right_shoulder lm)
                then FOLLOW_THROUGH else s3)
      in s4)"

text \<open>The appends to \<open>phase_data[stage]\<close>.\<close>

definition store_metrics :: "landmarks \<Rightarrow> stage \<Rightarrow> phase_data \<Rightarrow> phase_data" where
  "store_metrics lm s pd =
     (if s \<noteq> UNKNOWN then
        (let current_phase_data = pd s;
             d1 = current_phase_data
                    \<lparr>knee_angles := knee_angles current_phase_data @ [left_knee_angle lm],
                     leg_directions := leg_directions current_phase_data @ [front_leg_direction lm],
                     body_directions := body_directions current_phase_data @ [body_direction lm],
                     head_directions := head_directions current_phase_data @ [head_direction lm],
                     weight_transfers := weight_transfers current_phase_data @ [weight_transfer lm]\<rparr>;
             d2 = (if s = DOWNSWING
                   then d1\<lparr>elbow_angles := elbow_angles d1 @ [elbow_angle lm]\<rparr>
                   else d1)
         in pd(s := d2))
      else pd)"

definition process_frame :: "landmarks \<Rightarrow> run_state \<Rightarrow> run_state" where
  "process_frame lm st =
     (let s = detect_phase lm (stage st);
          pd = store_metrics lm s (phase_data st);
          n = (if s = FOLLOW_THROUGH then follow_through_frames st + 1
               else follow_through_frames st)
      in \<lparr>stage = s, follow_through_frames = n, phase_data = pd\<rparr>)"

subsection \<open>The frame loop\<close>

definition read_frame :: "frame \<Rightarrow> run_state \<Rightarrow> run_state" where
  "read_frame f st = (case f of None \<Rightarrow> st | Some lm \<Rightarrow> process_frame lm st)"

definition enough_follow_through :: "run_state \<Rightarrow> bool" where
  "enough_follow_through st \<longleftrightarrow>
     stage st = FOLLOW_THROUGH \<and> follow_through_frames st \<ge> FOLLOW_THROUGH_BUFFER"

text \<open>
  The \<open>while\<close> loop over the frames of the video: it ends when the frames are exhausted or,
  after a frame, the follow-through buffer is full.
\<close>

fun run_frames :: "frame list \<Rightarrow> run_state \<Rightarrow> run_state" where
  "run_frames [] st = st"
| "run_frames (f # fs) st =
     (let st' = read_frame f st
      in if enough_follow_through st' then st' else run_frames fs st')"

text \<open>
  What the loop records, as a trace: for every frame with landmarks that the loop processes,
  the phase its sample was stored under and the frame itself.
\<close>

fun recorded :: "frame list \<Rightarrow> run_state \<Rightarrow> (stage \<times> landmarks) list" where
  "recorded [] st = []"
| "recorded (f # fs) st =
     (let st' = read_frame f st
      in (case f of None \<Rightarrow> [] | Some lm \<Rightarrow> [(stage st', lm)])
         @ (if enough_follow_through st' then [] else recorded fs st'))"

definition recorded_phases :: "frame list \<Rightarrow> stage list" where
  "recorded_phases fs = map fst (recorded fs initial_state)"

definition samples_of :: "stage \<Rightarrow> (stage \<times> landmarks) list \<Rightarrow> landmarks list" where
  "samples_of q rs = map snd (filter (\<lambda>r. fst r = q) rs)"

definition frames_recorded_in :: "stage \<Rightarrow> frame list \<Rightarrow> landmarks list" where
  "frames_recorded_in q fs = samples_of q (recorded fs initial_state)"

fun stage_rank :: "stage \<Rightarrow> nat" where
  "stage_rank UNKNOWN = 0"
| "stage_rank STANCE = 1"
| "stage_rank BACKLIFT = 2"
| "stage_rank DOWNSWING = 3"
| "stage_rank FOLLOW_THROUGH = 4"

section \<open>The shot classifier \<open>detect_shot_type\<close>\<close>

text \<open>\<open>numpy.mean\<close> of a list; its callers guard the empty list.\<close>

definition np_mean :: "real list \<Rightarrow> real" where
  "np_mean data = sum_list data / real (length data)"

text \<open>
  The three indicators that \<open>detect_shot_type\<close> computes first. Rotation and shift stay 0
  unless both the \<open>STANCE\<close> and the \<open>DOWNSWING\<close> list are non-empty.
\<close>

definition body_rotation :: "phase_data \<Rightarrow> real" where
  "body_rotation pd =
     (if body_directions (pd STANCE) \<noteq> [] \<and> body_directions (pd DOWNSWING) \<noteq> []
      then \<bar>np_mean (body_directions (pd STANCE)) - last (body_directions (pd DOWNSWING))\<bar>
      else 0)"

definition weight_shift :: "phase_data \<Rightarrow> real" where
  "weight_shift pd =
     (if weight_transfers (pd STANCE) \<noteq> [] \<and> weight_transfers (pd DOWNSWING) \<noteq> []
      then (last (weight_transfers (pd DOWNSWING)) - np_mean (weight_transfers (pd STANCE))) * 100
      else 0)"

definition backlift_height :: "phase_data \<Rightarrow> real" where
  "backlift_height pd =
     real (length (knee_angles (pd BACKLIFT))) / real (max (length (knee_angles (pd STANCE))) 1)"

text \<open>
  The \<open>if\<close>/\<open>elif\<close> chain, as the value the \<open>try\<close> block returns when nothing in it raises.
  The block with its raising operations and the \<open>except\<close> branch (\<open>UNKNOWN\<close>, 0.0) is
  \<open>detect_shot_type_caught\<close> below.
\<close>

definition detect_shot_type :: "phase_data \<Rightarrow> string \<times> real" where
  "detect_shot_type pd =
     (let rotation = body_rotation pd;
          shift = weight_shift pd;
          height = backlift_height pd
      in if rotation < 15 \<and> \<bar>shift\<bar> < 5 \<and> height < 0.5 then (''DEFENSIVE'', 0.85)
         else if shift > 5 \<and> 15 \<le> rotation \<and> rotation \<le> 45 then (''DRIVE'', 0.80)
         else if rotation > 50 \<and> shift < 5 then (''PULL/HOOK'', 0.75)
         else if rotation > 45 \<and> shift < 3
                 \<and> length (knee_angles (pd DOWNSWING)) < length (knee_angles (pd BACKLIFT))
              then (''CUT'', 0.75)
         else if rotation > 60 then (''SWEEP'', 0.70)
         else if height > 1.2 \<and> rotation > 30 then (''LOFTED'', 0.70)
         else (''FORWARD SHOT'', 0.60))"

subsection \<open>The cascade as the specification words it\<close>

text \<open>
  The specification describes the classifier as an ordered list of (predicate, outcome)
  pairs over five features, of which the first pair whose predicate holds gives the result.
\<close>

record features =
  rotation :: real
  shift :: real
  backlift_ratio :: real
  downswing_len :: nat
  backlift_len :: nat

definition features_of :: "phase_data \<Rightarrow> features" where
  "features_of pd = \<lparr>rotation = body_rotation pd, shift = weight_shift pd,
     backlift_ratio = backlift_height pd,
     downswing_len = length (knee_angles (pd DOWNSWING)),
     backlift_len = length (knee_angles (pd BACKLIFT))\<rparr>"

definition shot_rules :: "((features \<Rightarrow> bool) \<times> (string \<times> real)) list" where
  "shot_rules =
     [(\<lambda>x. rotation x < 15 \<and> \<bar>shift x\<bar> < 5 \<and> backlift_ratio x < 0.5, (''DEFENSIVE'', 0.85)),
      (\<lambda>x. shift x > 5 \<and> 15 \<le> rotation x \<and> rotation x \<le> 45, (''DRIVE'', 0.80)),
      (\<lambda>x. rotation x > 50 \<and> shift x < 5, (''PULL/HOOK'', 0.75)),
      (\<lambda>x. rotation x > 45 \<and> shift x < 3 \<and> downswing_len x < backlift_len x, (''CUT'', 0.75)),
      (\<lambda>x. rotation x > 60, (''SWEEP'', 0.70)),
      (\<lambda>x. backlift_ratio x > 1.2 \<and> rotation x > 30, (''LOFTED'', 0.70)),
      (\<lambda>x. True, (''FORWARD SHOT'', 0.60))]"

fun first_match :: "(('a \<Rightarrow> bool) \<times> 'b) list \<Rightarrow> 'a \<Rightarrow> 'b option" where
  "first_match [] x = None"
| "first_match (r # rs) x = (if fst r x then Some (snd r) else first_match rs x)"

section \<open>The aggregator: final metrics\<close>

text \<open>
  The dictionary \<open>final_metrics\<close>, which is also the input of the two engines of
  advice_engine.py. A key that is absent is \<open>None\<close>.
\<close>

record shot_metrics =
  stance_body_direction :: "real option"
  impact_body_direction :: "real option"
  body_rotation_over_time :: "real list option"
  stance_leg_direction :: "real option"
  impact_leg_direction :: "real option"
  weight_transfer_amount :: "real option"
  max_elbow_angle :: "real option"
  stance_knee_angle :: "real option"
  downswing_knee_angle :: "real option"
  stance_head_direction :: "real option"
  downswing_head_direction :: "real option"
  shot_type :: "string option"
  shot_confidence :: "real option"
  body_rotation_total :: "real option"
  head_movement :: "real option"
  knee_bracing :: "real option"

text \<open>A metrics dictionary without any key.\<close>

definition no_metrics :: shot_metrics where
  "no_metrics = \<lparr>stance_body_direction = None, impact_body_direction = None,
     body_rotation_over_time = None, stance_leg_direction = None, impact_leg_direction = None,
     weight_transfer_amount = None, max_elbow_angle = None, stance_knee_angle = None,
     downswing_knee_angle = None, stance_head_direction = None, downswing_head_direction = None,
     shot_type = None, shot_confidence = None, body_rotation_total = None,
     head_movement = None, knee_bracing = None\<rparr>"

definition get_avg :: "real list \<Rightarrow> real" where
  "get_avg data = (if data \<noteq> [] then np_mean data else 0)"

definition get_last :: "real list \<Rightarrow> real" where
  "get_last data = (if data \<noteq> [] then last data else 0)"

text \<open>Python's \<open>max\<close> of a list; its caller guards the empty list.\<close>

fun max_list :: "real list \<Rightarrow> real" where
  "max_list [] = 0"
| "max_list (x # xs) = fold max xs x"

text \<open>
  The final metrics processing, as the dictionary its \<open>try\<close> block builds when no statement
  of it raises. The block statement by statement, with its handler, is \<open>final_steps\<close> and
  \<open>run_try\<close> below.
\<close>

definition final_metrics :: "phase_data \<Rightarrow> shot_metrics" where
  "final_metrics pd =
     (let stance_dir = get_avg (body_directions (pd STANCE));
          impact_dir = get_last (body_directions (pd DOWNSWING));
          initial_weight = get_avg (weight_transfers (pd STANCE));
          impact_weight = get_last (weight_transfers (pd DOWNSWING));
          stance_knee = get_avg (knee_angles (pd STANCE));
          downswing_knee = get_avg (knee_angles (pd DOWNSWING));
          stance_head = get_avg (head_directions (pd STANCE));
          downswing_head = get_avg (head_directions (pd DOWNSWING));
          detected = detect_shot_type pd
      in \<lparr>stance_body_direction = Some stance_dir,
          impact_body_direction = Some impact_dir,
          body_rotation_over_time =
            Some (body_directions (pd STANCE) @ body_directions (pd BACKLIFT)
                  @ body_directions (pd DOWNSWING) @ body_directions (pd FOLLOW_THROUGH)),
          stance_leg_direction = Some (get_avg (leg_directions (pd STANCE))),
          impact_leg_direction = Some (get_last (leg_directions (pd DOWNSWING))),
          weight_transfer_amount = Some ((impact_weight - initial_weight) * 100),
          max_elbow_angle =
            Some (if elbow_angles (pd DOWNSWING) \<noteq> [] then max_list (elbow_angles (pd DOWNSWING))
                  else 0),
          stance_knee_angle = Some stance_knee,
          downswing_knee_angle = Some downswing_knee,
          stance_head_direction = Some stance_head,
          downswing_head_direction = Some downswing_head,
          shot_type = Some (fst detected),
          shot_confidence = Some (snd detected),
          body_rotation_total = Some \<bar>stance_dir - impact_dir\<bar>,
          head_movement = Some \<bar>stance_head - downswing_head\<bar>,
          knee_bracing = Some (downswing_knee - stance_knee)\<rparr>)"

text \<open>
  The terminal value of the generator \<open>analyze_cricket_shot\<close> for a video that opened:
  the frame loop, then the final metrics. The previews it yields before are not modelled.
\<close>

definition analyze_cricket_shot :: "frame list \<Rightarrow> shot_metrics" where
  "analyze_cricket_shot frames = final_metrics (phase_data (run_frames frames initial_state))"

section \<open>The try blocks of analysis.py with their handlers\<close>

text \<open>
  The definitions of \<open>detect_shot_type\<close> and \<open>final_metrics\<close> above give the values that the
  two \<open>try\<close> blocks compute when nothing raises. Here the blocks are written out with
  every operation of theirs that can raise, as a value \<open>Inl\<close> of the exception, and with
  their \<open>except Exception\<close> handlers.
\<close>

datatype error = IndexError | ZeroDivisionError | ValueError | KeyError





definition item :: "real option \<Rightarrow> error + real" where
  "item entry = (case entry of None \<Rightarrow> Inl KeyError | Some x \<Rightarrow> Inr x)"







section \<open>Text and number rendering (advice_engine.py)\<close>

text \<open>
  Strings are byte strings here: the five symbols outside ASCII that the advice texts use
  are given by their UTF-8 bytes (check mark, warning sign, light bulb, weight lifter,
  degree sign).
\<close>

definition check_mark :: string where
  "check_mark = [CHR 0xE2, CHR 0x9C, CHR 0x85]"

definition warning_sign :: string where
  "warning_sign = [CHR 0xE2, CHR 0x9A, CHR 0xA0, CHR 0xEF, CHR 0xB8, CHR 0x8F]"

definition light_bulb :: string where
  "light_bulb = [CHR 0xF0, CHR 0x9F, CHR 0x92, CHR 0xA1]"

definition weight_lifter :: string where
  "weight_lifter = [CHR 0xF0, CHR 0x9F, CHR 0x8F, CHR 0x8B, CHR 0xEF, CHR 0xB8, CHR 0x8F]"

definition degree_sign :: string where
  "degree_sign = [CHR 0xC2, CHR 0xB0]"

text \<open>
  Python rounds a float to a number of decimals by rounding its exact value, ties to even.
  \<open>format_1f\<close> is the format \<open>:.1f\<close> and \<open>round1\<close> is \<open>round(x, 1)\<close>, on the reals.
\<close>

definition round_half_even :: "real \<Rightarrow> int" where
  "round_half_even x =
     (let f = \<lfloor>x\<rfloor>; d = x - of_int f
      in if d < 1/2 then f else if d > 1/2 then f + 1 else if even f then f else f + 1)"

fun show_nat :: "nat \<Rightarrow> string" where
  "show_nat n =
     (if n < 10 then [''0123456789'' ! n]
      else show_nat (n div 10) @ [''0123456789'' ! (n mod 10)])"

declare show_nat.simps [simp del]

definition format_1f :: "real \<Rightarrow> string" where
  "format_1f x =
     (let t = nat (round_half_even (\<bar>x\<bar> * 10))
      in (if x < 0 then ''-'' else '''') @ show_nat (t div 10) @ ''.'' @ show_nat (t mod 10))"

definition round1 :: "real \<Rightarrow> real" where
  "round1 x = real_of_int (round_half_even (x * 10)) / 10"

section \<open>The advice engine \<open>CricketAdviceEngine\<close>\<close>

datatype metric_status = excellent | needs_improvement | poor

datatype level = high | medium | low

datatype feedback_type = strength | flaw | recommendation

text \<open>One entry of the dictionary that \<open>_analyze_metrics\<close> returns (keys value, status, importance).\<close>

record analysis =
  a_value :: real
  a_status :: metric_status
  a_importance :: level

subsection \<open>\<open>_analyze_metrics\<close>\<close>

definition analyze_elbow_angle :: "string \<Rightarrow> real \<Rightarrow> analysis" where
  "analyze_elbow_angle shot angle =
     (if shot \<in> set [''DRIVE'', ''DEFENSIVE'', ''FORWARD SHOT''] then
        (if angle \<ge> 165 then \<lparr>a_value = angle, a_status = excellent, a_importance = high\<rparr>
         else if angle \<ge> 155 then \<lparr>a_value = angle, a_status = needs_improvement, a_importance = high\<rparr>
         else \<lparr>a_value = angle, a_status = poor, a_importance = high\<rparr>)
      else
        (if angle \<ge> 150 then \<lparr>a_value = angle, a_status = excellent, a_importance = medium\<rparr>
         else if angle \<ge> 135 then \<lparr>a_value = angle, a_status = needs_improvement, a_importance = medium\<rparr>
         else \<lparr>a_value = angle, a_status = poor, a_importance = high\<rparr>))"

definition analyze_weight_transfer :: "string \<Rightarrow> real \<Rightarrow> analysis" where
  "analyze_weight_transfer shot transfer =
     (if shot \<in> set [''DRIVE'', ''FORWARD SHOT'', ''LOFTED''] then
        (if transfer \<ge> 8 then \<lparr>a_value = transfer, a_status = excellent, a_importance = high\<rparr>
         else if transfer \<ge> 3 then \<lparr>a_value = transfer, a_status = needs_improvement, a_importance = high\<rparr>
         else \<lparr>a_value = transfer, a_status = poor, a_importance = high\<rparr>)
      else if shot \<in> set [''PULL/HOOK'', ''CUT''] then
        (if transfer \<le> 2 then \<lparr>a_value = transfer, a_status = excellent, a_importance = high\<rparr>
         else if transfer \<le> 5 then \<lparr>a_value = transfer, a_status = needs_improvement, a_importance = high\<rparr>
         else \<lparr>a_value = transfer, a_status = poor, a_importance = high\<rparr>)
      else
        (if 0 \<le> transfer \<and> transfer \<le> 5
         then \<lparr>a_value = transfer, a_status = excellent, a_importance = medium\<rparr>
         else \<lparr>a_value = transfer, a_status = needs_improvement, a_importance = medium\<rparr>))"

definition analyze_body_rotation :: "string \<Rightarrow> real \<Rightarrow> analysis" where
  "analyze_body_rotation shot r =
     (if shot \<in> set [''PULL/HOOK'', ''SWEEP'', ''CUT''] then
        (if r \<ge> 45 then \<lparr>a_value = r, a_status = excellent, a_importance = high\<rparr>
         else if r \<ge> 30 then \<lparr>a_value = r, a_status = needs_improvement, a_importance = high\<rparr>
         else \<lparr>a_value = r, a_status = poor, a_importance = high\<rparr>)
      else if shot = ''DEFENSIVE'' then
        (if r \<le> 15 then \<lparr>a_value = r, a_status = excellent, a_importance = high\<rparr>
         else if r \<le> 25 then \<lparr>a_value = r, a_status = needs_improvement, a_importance = medium\<rparr>
         else \<lparr>a_value = r, a_status = poor, a_importance = medium\<rparr>)
      else
        (if 20 \<le> r \<and> r \<le> 45 then \<lparr>a_value = r, a_status = excellent, a_importance = medium\<rparr>
         else if r < 15 \<or> r > 60 then \<lparr>a_value = r, a_status = poor, a_importance = high\<rparr>
         else \<lparr>a_value = r, a_status = needs_improvement, a_importance = medium\<rparr>))"

definition analyze_head_stability :: "real \<Rightarrow> analysis" where
  "analyze_head_stability h =
     (if h \<le> 8 then \<lparr>a_value = h, a_status = excellent, a_importance = high\<rparr>
      else if h \<le> 20 then \<lparr>a_value = h, a_status = needs_improvement, a_importance = high\<rparr>
      else \<lparr>a_value = h, a_status = poor, a_importance = high\<rparr>)"

definition analyze_knee_bracing :: "real \<Rightarrow> analysis" where
  "analyze_knee_bracing k =
     (if k \<ge> 15 then \<lparr>a_value = k, a_status = excellent, a_importance = medium\<rparr>
      else if k \<ge> 5 then \<lparr>a_value = k, a_status = needs_improvement, a_importance = medium\<rparr>
      else \<lparr>a_value = k, a_status = poor, a_importance = medium\<rparr>)"

definition analyze_stance_knee :: "real \<Rightarrow> analysis" where
  "analyze_stance_knee k =
     (if 120 \<le> k \<and> k \<le> 145 then \<lparr>a_value = k, a_status = excellent, a_importance = low\<rparr>
      else if k < 110 \<or> k > 160 then \<lparr>a_value = k, a_status = poor, a_importance = medium\<rparr>
      else \<lparr>a_value = k, a_status = needs_improvement, a_importance = low\<rparr>)"

text \<open>
  The analysis dictionary in insertion order, which is the order its items are iterated in.
  Each key is inserted at most once.
\<close>

definition analyze_metrics :: "shot_metrics \<Rightarrow> string \<Rightarrow> (string \<times> analysis) list" where
  "analyze_metrics metrics shot =
     (case max_elbow_angle metrics of None \<Rightarrow> []
      | Some angle \<Rightarrow> [(''elbow_angle'', analyze_elbow_angle shot angle)])
     @ (case weight_transfer_amount metrics of None \<Rightarrow> []
        | Some transfer \<Rightarrow> [(''weight_transfer'', analyze_weight_transfer shot transfer)])
     @ (case body_rotation_total metrics of None \<Rightarrow> []
        | Some r \<Rightarrow> [(''body_rotation'', analyze_body_rotation shot r)])
     @ (case head_movement metrics of None \<Rightarrow> []
        | Some h \<Rightarrow> [(''head_stability'', analyze_head_stability h)])
     @ (case knee_bracing metrics of None \<Rightarrow> []
        | Some k \<Rightarrow> if shot \<in> set [''DRIVE'', ''FORWARD SHOT'']
                    then [(''knee_bracing'', analyze_knee_bracing k)] else [])
     @ (case stance_knee_angle metrics of None \<Rightarrow> []
        | Some k \<Rightarrow> [(''stance_knee'', analyze_stance_knee k)])"

subsection \<open>\<open>_get_contextual_feedback\<close>\<close>

text \<open>
  The three branches of \<open>_get_contextual_feedback\<close>, one per feedback type. Where no
  \<open>return\<close> of a branch is reached the function returns the empty string at its end.
\<close>

definition strength_feedback :: "string \<Rightarrow> real \<Rightarrow> string \<Rightarrow> string" where
  "strength_feedback metric v shot =
     (if metric = ''elbow_angle'' then
        (check_mark
         @ '' Excellent arm extension (''
         @ format_1f v
         @ degree_sign
         @ '') - your front arm is beautifully straight, generating optimal power''
         @ '' and control'')
      else if metric = ''weight_transfer'' then
        (if shot \<in> set [''DRIVE'', ''FORWARD SHOT''] then
           (check_mark
            @ '' Perfect weight transfer forward (''
            @ format_1f v
            @ '') - you're getting excellent momentum into the shot'')
         else if shot \<in> set [''PULL/HOOK'', ''CUT''] then
           (check_mark
            @ '' Good weight distribution (''
            @ format_1f v
            @ '') - well balanced for a back-foot shot'')
         else '''')
      else if metric = ''body_rotation'' then
        (if shot \<in> set [''PULL/HOOK'', ''SWEEP''] then
           (check_mark
            @ '' Powerful body rotation (''
            @ format_1f v
            @ degree_sign
            @ '') - great use of your core to generate power'')
         else if shot = ''DEFENSIVE'' then
           (check_mark
            @ '' Controlled body movement (''
            @ format_1f v
            @ degree_sign
            @ '') - excellent defensive technique with minimal rotation'')
         else
           (check_mark
            @ '' Good shoulder turn (''
            @ format_1f v
            @ degree_sign
            @ '') - optimal rotation for this shot''))
      else if metric = ''head_stability'' then
        (check_mark
         @ '' Excellent head stability (''
         @ format_1f v
         @ degree_sign
         @ '' movement) - your head position is rock solid, crucial for timing'')
      else if metric = ''knee_bracing'' then
        (check_mark
         @ '' Strong front leg bracing (''
         @ format_1f v
         @ degree_sign
         @ '' extension) - solid base for power transfer'')
      else if metric = ''stance_knee'' then
        (check_mark
         @ '' Balanced stance position (''
         @ format_1f v
         @ degree_sign
         @ '') - good athletic base'')
      else '''')"

definition flaw_feedback :: "string \<Rightarrow> real \<Rightarrow> string \<Rightarrow> string" where
  "flaw_feedback metric v shot =
     (if metric = ''elbow_angle'' then
        (if shot \<in> set [''DRIVE'', ''FORWARD SHOT''] then
           (warning_sign
            @ '' Bent front arm (''
            @ format_1f v
            @ degree_sign
            @ '') - for drives, keep your front arm straighter through impact for''
            @ '' better timing and power'')
         else
           (warning_sign
            @ '' Elbow too bent (''
            @ format_1f v
            @ degree_sign
            @ '') - work on fuller arm extension to improve bat speed''))
      else if metric = ''weight_transfer'' then
        (if shot \<in> set [''DRIVE'', ''FORWARD SHOT'', ''LOFTED''] then
           (if v < 0 then
              (warning_sign
               @ '' Weight going backwards (''
               @ format_1f v
               @ '') - you're falling away from the ball. Get your weight moving forward'')
            else
              (warning_sign
               @ '' Insufficient weight transfer (''
               @ format_1f v
               @ '') - commit more to moving forward into the shot''))
         else if shot \<in> set [''PULL/HOOK'', ''CUT''] then
           (warning_sign
            @ '' Too much forward weight transfer (''
            @ format_1f v
            @ '') - these back-foot shots need weight back, not forward'')
         else '''')
      else if metric = ''body_rotation'' then
        (if shot \<in> set [''PULL/HOOK'', ''CUT''] then
           (warning_sign
            @ '' Limited body rotation (''
            @ format_1f v
            @ degree_sign
            @ '') - generate more power by using your hips and shoulders'')
         else if shot = ''DEFENSIVE'' then
           (warning_sign
            @ '' Excessive body movement (''
            @ format_1f v
            @ degree_sign
            @ '') - defensive shots need minimal rotation for better control'')
         else
           (if v < 15 then
              (warning_sign
               @ '' Too little body rotation (''
               @ format_1f v
               @ degree_sign
               @ '') - engage your core more to generate power'')
            else
              (warning_sign
               @ '' Over-rotating (''
               @ format_1f v
               @ degree_sign
               @ '') - this can cause loss of balance and power'')))
      else if metric = ''head_stability'' then
        (warning_sign
         @ '' Head movement detected (''
         @ format_1f v
         @ degree_sign
         @ '') - excessive head movement disrupts timing and ball tracking'')
      else if metric = ''knee_bracing'' then
        (warning_sign
         @ '' Weak front leg (''
         @ format_1f v
         @ degree_sign
         @ '' change) - brace your front leg more firmly for better energy transfer'')
      else if metric = ''stance_knee'' then
        (if v < 120 then
           (warning_sign
            @ '' Stance too low (''
            @ format_1f v
            @ degree_sign
            @ '') - raise your stance slightly for better movement'')
         else
           (warning_sign
            @ '' Stance too upright (''
            @ format_1f v
            @ degree_sign
            @ '') - lower your stance for better balance''))
      else '''')"

definition recommendation_feedback :: "string \<Rightarrow> string \<Rightarrow> string" where
  "recommendation_feedback metric shot =
     (if metric = ''elbow_angle'' then
        (light_bulb
         @ '' Drill: Practice shadow batting with emphasis on keeping your front arm''
         @ '' fully extended. Hold the finish position to feel the stretch'')
      else if metric = ''weight_transfer'' then
        (if shot \<in> set [''DRIVE'', ''FORWARD SHOT''] then
           (light_bulb
            @ '' Drill: Practice stepping forward into a front-foot drive, focusing on''
            @ '' feeling your weight shift onto your front foot'')
         else if shot \<in> set [''PULL/HOOK'', ''CUT''] then
           (light_bulb
            @ '' Drill: Practice weight transfer to your back foot. Do shadow pulls,''
            @ '' ensuring you feel balanced on your back leg'')
         else '''')
      else if metric = ''body_rotation'' then
        (if shot \<in> set [''PULL/HOOK''] then
           (light_bulb
            @ '' Drill: Practice hip and shoulder rotation exercises. Focus on pivoting''
            @ '' your back foot to generate power'')
         else if shot = ''DEFENSIVE'' then
           (light_bulb
            @ '' Drill: Practice defensive shots with focus on minimal body movement -''
            @ '' quiet hands and solid base'')
         else
           (light_bulb
            @ '' Drill: Work on core rotation - practice turning your shoulders while''
            @ '' keeping head still''))
      else if metric = ''head_stability'' then
        (light_bulb
         @ '' Drill: Place a cap with water on your head during shadow batting.''
         @ '' Practice keeping it balanced - this forces head stillness'')
      else if metric = ''knee_bracing'' then
        (light_bulb
         @ '' Drill: Practice leg strengthening exercises (lunges, single-leg''
         @ '' squats) to build a stronger, more stable base'')
      else '''')"

definition get_contextual_feedback ::
    "string \<Rightarrow> analysis \<Rightarrow> string \<Rightarrow> feedback_type \<Rightarrow> string" where
  "get_contextual_feedback metric a shot kind =
     (case kind of
        strength \<Rightarrow> strength_feedback metric (a_value a) shot
      | flaw \<Rightarrow> flaw_feedback metric (a_value a) shot
      | recommendation \<Rightarrow> recommendation_feedback metric shot)"

subsection \<open>\<open>_get_shot_specific_recommendations\<close>\<close>

text \<open>
  Of the table \<open>shot_specific_advice\<close> the keys and the \<open>drills\<close> entries are modelled;
  the descriptions, focus areas and flaw texts only fill \<open>shot_insights\<close>, which is left
  out of the advice record below.
\<close>

definition shot_drills :: "(string \<times> string list) list" where
  "shot_drills =
     [(''DRIVE'',
        [''Front foot drives off a bowling machine at 70% pace - focus on head''
           @ '' position'',
         ''Shadow batting with mirror - check elbow height at impact point'',
         ''Throw-downs with tennis ball - exaggerate weight transfer'',
         ''Drive against wall with taped target - practice follow-through direction'']),
      (''PULL/HOOK'',
        [''Short ball machine work - start at reduced pace and gradually increase'',
         ''Tennis ball throws at head height - practice ducking vs playing'',
         ''Pull shot shadow batting focusing on hip rotation'',
         ''Reaction drills with colored balls - decide pull vs duck'']),
      (''CUT'',
        [''Side-on throw-downs outside off stump - practice leaving vs cutting''
           @ '' decision'',
         ''Cut shot against spin bowling - develops timing and placement'',
         ''Back foot movement drills - quick lateral steps'',
         ''Wrist strengthening exercises for better bat control'']),
      (''DEFENSIVE'',
        [''Defense against spin on turning pitches - practice smothering turn'',
         ''Ball drop exercises - soft hands catching drill'',
         ''Forward defense with eyes closed (after release) - trust technique'',
         ''Defense against seam movement - focus on playing late'']),
      (''SWEEP'',
        [''Sweep against underarm spin throws - build confidence'',
         ''Knee strengthening for low position maintenance'',
         ''Placement practice - cones at fine leg, square leg, backward square'',
         ''Switch between sweep and pad-first defense based on line'']),
      (''LOFTED'',
        [''Lofted drives with tennis ball first - build confidence'',
         ''Target practice - hit cones at different distances'',
         ''Footwork drills - quick steps to pitch of ball'',
         ''Balance exercises - single leg stability'']),
      (''FORWARD SHOT'',
        [''Front foot stride practice with marker cones'',
         ''Head position drills - balance book on head during shadow batting'',
         ''Weight transfer exercises with resistance bands'',
         ''Slow motion practice focusing on sequence of movements'']),
      (''FLICK'',
        [''Wrist flexibility exercises with bat'',
         ''Throw-downs on leg stump - practice placement'',
         ''Flick vs defend decision drills'',
         ''One-handed bottom hand practice for feel'']),
      (''LEAVE'',
        [''Leave practice with colored balls - leave red, play blue'',
         ''Line and length judgment from side on video'',
         ''Practice sessions where you can only leave - builds patience'',
         ''Shoulder arms technique in front of mirror'']),
      (''BACK FOOT DEFENSE'',
        [''Back foot trigger movement practice'',
         ''Short ball defense with tennis balls'',
         ''Shadow batting focusing on high hands'',
         ''Catching practice to develop soft hands''])]"

definition pro_tips :: "(string \<times> string) list" where
  "pro_tips =
     [(''DRIVE'',
        light_bulb
          @ '' Pro Tip: For classic drives, imagine painting a straight line from''
          @ '' your bat's position at address to your follow-through. Your head''
          @ '' should be the heaviest thing going forward.''),
      (''PULL/HOOK'',
        light_bulb
          @ '' Pro Tip: Watch the ball onto the bat - pull shots require excellent''
          @ '' ball tracking. Commit early but execute late, and roll your wrists at''
          @ '' impact to keep the ball down.''),
      (''CUT'',
        light_bulb
          @ '' Pro Tip: Use your bottom hand to guide and your top hand to control -''
          @ '' wrist flexibility is key. Wait for the ball to come to you, don't go''
          @ '' looking for it.''),
      (''DEFENSIVE'',
        light_bulb
          @ '' Pro Tip: Think 'soft hands' - defensive shots should deaden the ball,''
          @ '' not push it. Imagine you're catching an egg - that's the grip pressure''
          @ '' you need.''),
      (''SWEEP'',
        light_bulb
          @ '' Pro Tip: Get your front pad outside the line to give yourself room and''
          @ '' protection. The sweep is premeditated - decide early and commit fully.''),
      (''LOFTED'',
        light_bulb
          @ '' Pro Tip: Trust your technique and swing through - don't try to hit too''
          @ '' hard, let timing do the work. Get to the pitch of the ball with your''
          @ '' feet.''),
      (''FORWARD SHOT'',
        light_bulb
          @ '' Pro Tip: Your head should lead every forward movement. Where your head''
          @ '' goes, your body follows. Practice until it becomes automatic.''),
      (''FLICK'',
        light_bulb
          @ '' Pro Tip: The flick is all about timing the wrist turn. Play along the''
          @ '' line first, then roll the wrists - think of it as redirecting, not''
          @ '' hitting.''),
      (''LEAVE'',
        light_bulb
          @ '' Pro Tip: The best batsmen know what not to play. A good leave is as''
          @ '' valuable as a good shot - it shows control and understanding of your''
          @ '' off stump.''),
      (''BACK FOOT DEFENSE'',
        light_bulb
          @ '' Pro Tip: Get back and across quickly, but play the ball under your''
          @ '' eyes. High hands and soft grip are your best friends against pace.'')]"

text \<open>
  \<open>random.choice\<close> is modelled by an index \<open>rnd\<close> supplied by the caller, reduced modulo
  the length of the list.
\<close>

definition get_shot_specific_recommendations :: "nat \<Rightarrow> string \<Rightarrow> string list" where
  "get_shot_specific_recommendations rnd shot =
     (case map_of shot_drills shot of
        None \<Rightarrow> []
      | Some drills \<Rightarrow>
          (case map_of pro_tips shot of None \<Rightarrow> [] | Some tip \<Rightarrow> [tip])
          @ (if drills \<noteq> []
             then [weight_lifter @ '' Recommended Drill: '' @ drills ! (rnd mod length drills)]
             else []))"

subsection \<open>\<open>generate_advice\<close>\<close>

record advice =
  advice_shot_type :: string
  advice_shot_confidence :: real
  strengths :: "string list"
  flaws :: "string list"
  recommendations :: "string list"

text \<open>The loop that collects the strengths, with its counter.\<close>

fun strengths_loop ::
    "string \<Rightarrow> (string \<times> analysis) list \<Rightarrow> string list \<Rightarrow> nat \<Rightarrow> string list" where
  "strengths_loop shot [] acc strengths_count = acc"
| "strengths_loop shot ((metric, a) # rest) acc strengths_count =
     (if a_status a = excellent \<and> strengths_count < 3
      then strengths_loop shot rest (acc @ [get_contextual_feedback metric a shot strength])
             (strengths_count + 1)
      else strengths_loop shot rest acc strengths_count)"

text \<open>
  The flaws with their priority, sorted by the key 0 for high and 1 for medium. Python's
  \<open>list.sort\<close> is stable, as is \<open>sort_key\<close>.
\<close>

definition priority_flaws ::
    "(string \<times> analysis) list \<Rightarrow> (string \<times> analysis \<times> level) list" where
  "priority_flaws metric_analysis =
     sort_key (\<lambda>x. if snd (snd x) = high then 0 else (1::nat))
       (map (\<lambda>(metric, a). (metric, a, if a_status a = poor then high else medium))
          (filter (\<lambda>(metric, a). a_status a \<in> set [poor, needs_improvement]) metric_analysis))"

text \<open>The three lists as they stand before the final check for empty lists.\<close>

definition found_strengths :: "shot_metrics \<Rightarrow> string list" where
  "found_strengths metrics =
     (let shot = (case shot_type metrics of None \<Rightarrow> ''UNKNOWN'' | Some t \<Rightarrow> t)
      in strengths_loop shot (analyze_metrics metrics shot) [] 0)"

definition found_flaws :: "shot_metrics \<Rightarrow> string list" where
  "found_flaws metrics =
     (let shot = (case shot_type metrics of None \<Rightarrow> ''UNKNOWN'' | Some t \<Rightarrow> t)
      in map (\<lambda>(metric, a, priority). get_contextual_feedback metric a shot flaw)
           (take 4 (priority_flaws (analyze_metrics metrics shot))))"

definition found_recommendations :: "nat \<Rightarrow> shot_metrics \<Rightarrow> string list" where
  "found_recommendations rnd metrics =
     (let shot = (case shot_type metrics of None \<Rightarrow> ''UNKNOWN'' | Some t \<Rightarrow> t)
      in filter (\<lambda>r. r \<noteq> '''')
           (map (\<lambda>(metric, a, priority). get_contextual_feedback metric a shot recommendation)
              (take 3 (priority_flaws (analyze_metrics metrics shot))))
         @ take 2 (get_shot_specific_recommendations rnd shot))"

definition generic_strength :: string where
  "generic_strength =
     (check_mark
      @ '' Good attempt - continue practicing to refine your technique'')"

definition generic_flaw :: string where
  "generic_flaw =
     (check_mark
      @ '' Solid technique overall - minor refinements will take you to the next''
      @ '' level'')"

definition generic_recommendation :: string where
  "generic_recommendation =
     (light_bulb
      @ '' Keep practicing your current technique with focus on consistency'')"

definition generate_advice :: "nat \<Rightarrow> shot_metrics \<Rightarrow> advice" where
  "generate_advice rnd metrics =
     (let s = found_strengths metrics;
          f = found_flaws metrics;
          r = found_recommendations rnd metrics
      in \<lparr>advice_shot_type = (case shot_type metrics of None \<Rightarrow> ''UNKNOWN'' | Some t \<Rightarrow> t),
          advice_shot_confidence = (case shot_confidence metrics of None \<Rightarrow> 0 | Some c \<Rightarrow> c),
          strengths = (if s = [] then [generic_strength] else s),
          flaws = (if f = [] then [generic_flaw] else f),
          recommendations = (if r = [] then [generic_recommendation] else r)\<rparr>)"

section \<open>The improvement engine \<open>ImprovementEngine\<close>\<close>

definition optimal_ranges :: "(string \<times> (string \<times> real \<times> real) list) list" where
  "optimal_ranges =
     [(''DRIVE'', [(''max_elbow_angle'', (165, 180)), (''weight_transfer_amount'', (8, 20)),
                  (''body_rotation_total'', (20, 45)), (''head_movement'', (0, 10))]),
      (''PULL/HOOK'', [(''max_elbow_angle'', (150, 180)), (''weight_transfer_amount'', (-5, 2)),
                  (''body_rotation_total'', (45, 75)), (''head_movement'', (0, 12))]),
      (''CUT'', [(''max_elbow_angle'', (150, 180)), (''weight_transfer_amount'', (-3, 5)),
                  (''body_rotation_total'', (45, 70)), (''head_movement'', (0, 12))]),
      (''DEFENSIVE'', [(''max_elbow_angle'', (160, 180)), (''weight_transfer_amount'', (0, 5)),
                  (''body_rotation_total'', (0, 15)), (''head_movement'', (0, 8))]),
      (''SWEEP'', [(''max_elbow_angle'', (140, 170)), (''weight_transfer_amount'', (3, 15)),
                  (''body_rotation_total'', (50, 80)), (''head_movement'', (0, 15))]),
      (''LOFTED'', [(''max_elbow_angle'', (155, 180)), (''weight_transfer_amount'', (5, 20)),
                  (''body_rotation_total'', (25, 55)), (''head_movement'', (0, 12))]),
      (''FORWARD SHOT'', [(''max_elbow_angle'', (160, 180)), (''weight_transfer_amount'', (5, 15)),
                  (''body_rotation_total'', (15, 40)), (''head_movement'', (0, 10))])]"

definition default_optimal :: "(string \<times> real \<times> real) list" where
  "default_optimal =
     [(''max_elbow_angle'', (155, 180)), (''weight_transfer_amount'', (3, 15)),
      (''body_rotation_total'', (20, 50)), (''head_movement'', (0, 12))]"

text \<open>Display name and unit of each metric (the entry \<open>higher_is_better\<close> is never read).\<close>

definition metric_info :: "(string \<times> string \<times> string) list" where
  "metric_info =
     [(''max_elbow_angle'', (''Elbow Extension'', degree_sign)),
      (''weight_transfer_amount'', (''Weight Transfer'', ''%'')),
      (''body_rotation_total'', (''Body Rotation'', degree_sign)),
      (''head_movement'', (''Head Stability'', degree_sign))]"

definition get_optimal_range :: "string \<Rightarrow> string \<Rightarrow> real \<times> real" where
  "get_optimal_range metric shot =
     (let shot_ranges = (case map_of optimal_ranges shot of Some r \<Rightarrow> r | None \<Rightarrow> default_optimal)
      in case map_of shot_ranges metric of
           Some b \<Rightarrow> b
         | None \<Rightarrow> (case map_of default_optimal metric of Some b \<Rightarrow> b | None \<Rightarrow> (0, 100)))"

text \<open>\<open>_calculate_metric_score\<close>; its third parameter \<open>higher_is_better\<close> is never read.\<close>

definition calculate_metric_score :: "real \<Rightarrow> real \<times> real \<Rightarrow> real" where
  "calculate_metric_score v optimal_range =
     (let opt_min = fst optimal_range;
          opt_max = snd optimal_range;
          opt_mid = (opt_min + opt_max) / 2
      in if opt_min \<le> v \<and> v \<le> opt_max then
           (let distance_from_mid = \<bar>v - opt_mid\<bar>;
                range_half = (opt_max - opt_min) / 2
            in if range_half > 0 then 100 - (distance_from_mid / range_half) * 20 else 100)
         else if v < opt_min then
           (let distance = opt_min - v;
                penalty = min (distance * 2) 50
            in max (80 - penalty) 20)
         else
           (let distance = v - opt_max;
                penalty = min (distance * 2) 50
            in max (80 - penalty) 20))"

datatype delta_status = improved | regressed | maintained

record comparison =
  original_value :: real
  followup_value :: real
  original_score :: real
  followup_score :: real
  score_change :: real
  status :: delta_status
  optimal_range :: "real \<times> real"

definition calculate_improvement_delta :: "real \<Rightarrow> real \<Rightarrow> real \<times> real \<Rightarrow> comparison" where
  "calculate_improvement_delta original followup band =
     (let original_score = calculate_metric_score original band;
          followup_score = calculate_metric_score followup band;
          score_change = followup_score - original_score;
          status = (if score_change > 5 then improved
                    else if score_change < -5 then regressed
                    else maintained)
      in \<lparr>original_value = original, followup_value = followup,
          original_score = original_score, followup_score = followup_score,
          score_change = score_change, status = status, optimal_range = band\<rparr>)"

text \<open>
  An entry of the three area lists. The entries of \<open>maintained_areas\<close> have no key
  \<open>change\<close>.
\<close>

record area =
  area_metric :: string
  area_name :: string
  area_change :: "real option"
  from_value :: real
  to_value :: real
  area_unit :: string

text \<open>Reading one of the four compared metrics from a metrics dictionary by its key.\<close>

definition metric_value :: "shot_metrics \<Rightarrow> string \<Rightarrow> real option" where
  "metric_value m key =
     (if key = ''max_elbow_angle'' then max_elbow_angle m
      else if key = ''weight_transfer_amount'' then weight_transfer_amount m
      else if key = ''body_rotation_total'' then body_rotation_total m
      else if key = ''head_movement'' then head_movement m
      else None)"

definition comparison_metrics :: "string list" where
  "comparison_metrics =
     [''max_elbow_angle'', ''weight_transfer_amount'', ''body_rotation_total'', ''head_movement'']"

definition calculate_overall_accuracy :: "shot_metrics \<Rightarrow> string \<Rightarrow> real" where
  "calculate_overall_accuracy metrics shot =
     (let scores = concat (map (\<lambda>metric. case metric_value metrics metric of
                                  None \<Rightarrow> []
                                | Some x \<Rightarrow> [calculate_metric_score x (get_optimal_range metric shot)])
                             comparison_metrics)
      in round1 (sum_list scores / real (max (length scores) 1)))"

datatype verdict = IMPROVED | REGRESSED | SLIGHT_IMPROVEMENT | SLIGHT_REGRESSION | MAINTAINED

text \<open>
  The state of the loop over the compared metrics: the comparisons, the running total of
  score changes, the number of metrics analysed, and the three area lists.
\<close>

type_synonym tally =
  "(string \<times> comparison) list \<times> real \<times> nat \<times> area list \<times> area list \<times> area list"

definition compare_metric :: "shot_metrics \<Rightarrow> shot_metrics \<Rightarrow> string \<Rightarrow> tally \<Rightarrow> string \<Rightarrow> tally" where
  "compare_metric original_metrics followup_metrics shot t metric =
     (case t of (metric_comparisons, total_score, analyzed, improved_areas, regressed_areas, maintained_areas) \<Rightarrow>
        (case (metric_value original_metrics metric, metric_value followup_metrics metric) of
           (Some original_val, Some followup_val) \<Rightarrow>
             (let band = get_optimal_range metric shot;
                  c = calculate_improvement_delta original_val followup_val band;
                  info = (case map_of metric_info metric of Some i \<Rightarrow> i | None \<Rightarrow> ('''', ''''));
                  entry = \<lparr>area_metric = metric, area_name = fst info,
                           area_change = Some (score_change c),
                           from_value = original_val, to_value = followup_val,
                           area_unit = snd info\<rparr>
              in (metric_comparisons @ [(metric, c)], total_score + score_change c, analyzed + 1,
                  (if status c = improved then improved_areas @ [entry] else improved_areas),
                  (if status c = regressed then regressed_areas @ [entry] else regressed_areas),
                  (if status c = maintained then maintained_areas @ [entry\<lparr>area_change := None\<rparr>]
                   else maintained_areas)))
         | _ \<Rightarrow> t))"

record improvement =
  result_shot_type :: string
  followup_shot_type :: string
  metric_comparisons :: "(string \<times> comparison) list"
  improved_areas :: "area list"
  regressed_areas :: "area list"
  maintained_areas :: "area list"
  original_accuracy :: real
  followup_accuracy :: real
  accuracy_change :: real
  overall_verdict :: verdict
  verdict_description :: string
  improvement_score :: real

text \<open>The verdict and its description, as the last \<open>if\<close> chain of \<open>analyze_improvement\<close> sets them.\<close>

definition judge :: "real \<Rightarrow> real \<Rightarrow> nat \<Rightarrow> nat \<Rightarrow> verdict \<times> string" where
  "judge original_acc followup_acc n_improved n_regressed =
     (if followup_acc > original_acc + 5 then
        (IMPROVED,
         (''Great progress! Your technique has measurably improved.''))
      else if followup_acc < original_acc - 5 then
        (REGRESSED,
         (''Your follow-up attempt shows some regression. This can happen when''
          @ '' trying new techniques - keep practicing.''))
      else if n_improved > n_regressed then
        (SLIGHT_IMPROVEMENT,
         (''Marginal improvement detected. You're on the right track but there's''
          @ '' more work to do.''))
      else if n_regressed > n_improved then
        (SLIGHT_REGRESSION,
         (''Your technique has slightly regressed. Review the feedback from your''
          @ '' first attempt and focus on those areas.''))
      else
        (MAINTAINED,
         (''Your technique is consistent between attempts. Focus on specific areas''
          @ '' to see improvement.'')))"

definition analyze_improvement :: "shot_metrics \<Rightarrow> shot_metrics \<Rightarrow> improvement" where
  "analyze_improvement original_metrics followup_metrics =
     (let shot = (case shot_type original_metrics of None \<Rightarrow> ''FORWARD SHOT'' | Some t \<Rightarrow> t);
          followup_shot = (case shot_type followup_metrics of None \<Rightarrow> ''FORWARD SHOT'' | Some t \<Rightarrow> t)
      in case foldl (compare_metric original_metrics followup_metrics shot) ([], 0, 0, [], [], [])
                comparison_metrics of
           (comparisons, total_score, analyzed, improved_list, regressed_list, maintained_list) \<Rightarrow>
             (let avg_improvement = total_score / real (max analyzed 1);
                  original_acc = calculate_overall_accuracy original_metrics shot;
                  followup_acc = calculate_overall_accuracy followup_metrics shot;
                  judged = judge original_acc followup_acc (length improved_list)
                             (length regressed_list)
              in \<lparr>result_shot_type = shot,
                  followup_shot_type = followup_shot,
                  metric_comparisons = comparisons,
                  improved_areas = improved_list,
                  regressed_areas = regressed_list,
                  maintained_areas = maintained_list,
                  original_accuracy = original_acc,
                  followup_accuracy = followup_acc,
                  accuracy_change = followup_acc - original_acc,
                  overall_verdict = fst judged,
                  verdict_description = snd judged,
                  improvement_score = min (max (50 + avg_improvement) 0) 100\<rparr>))"

section \<open>The phase transitions as the specification words them\<close>

text \<open>
  The specification numbers three transition checks, applied one after the other to the
  phase, after the initial pseudo-state has been resolved to \<open>STANCE\<close>.
\<close>

definition resolve_unknown :: "stage \<Rightarrow> stage" where
  "resolve_unknown p = (if p = UNKNOWN then STANCE else p)"

definition transition1 :: "landmarks \<Rightarrow> stage \<Rightarrow> stage" where
  "transition1 lm p =
     (if (p = STANCE \<or> p = BACKLIFT) \<and> snd (left_wrist lm) < 1.1 * snd (nose lm)
      then BACKLIFT else p)"

definition transition2 :: "landmarks \<Rightarrow> stage \<Rightarrow> stage" where
  "transition2 lm p =
     (if p = BACKLIFT \<and> snd (left_wrist lm) > 0.9 * snd (nose lm) then DOWNSWING else p)"

definition transition3 :: "landmarks \<Rightarrow> stage \<Rightarrow> stage" where
  "transition3 lm p =
     (if p = DOWNSWING \<and> fst (left_wrist lm) > fst (right_shoulder lm)
      then FOLLOW_THROUGH else p)"

section \<open>Example inputs\<close>

text \<open>
  A frame whose wrist is level with the nose and to the right of the right shoulder:
  from the initial state all three transitions fire on it.
\<close>

definition cascade_frame :: landmarks where
  "cascade_frame = \<lparr>left_shoulder = (1/2, 1/4), left_elbow = (1/2, 3/8), left_wrist = (1/2, 1/4),
     right_shoulder = (1/4, 1/4), nose = (3/8, 1/4), left_hip = (1/2, 1/2),
     left_knee = (1/2, 3/4), left_ankle = (1/2, 1), right_hip = (1/4, 1/2),
     right_knee = (1/4, 3/4), right_ankle = (1/4, 1)\<rparr>"

text \<open>
  A frame whose wrist is level with the nose but not past the right shoulder: from the
  initial state it is stored under \<open>DOWNSWING\<close>, with body direction 45 degrees.
\<close>

definition downswing_frame :: landmarks where
  "downswing_frame = \<lparr>left_shoulder = (1/2, 1/2), left_elbow = (1/2, 3/8), left_wrist = (1/4, 1/4),
     right_shoulder = (1/4, 1/4), nose = (3/8, 1/4), left_hip = (1/2, 1/2),
     left_knee = (1/2, 3/4), left_ankle = (1/4, 1), right_hip = (1/4, 1/2),
     right_knee = (1/4, 3/4), right_ankle = (1/4, 1)\<rparr>"

text \<open>A frame with the wrist well above the nose: it is stored under \<open>BACKLIFT\<close>.\<close>

definition backlift_frame :: landmarks where
  "backlift_frame = \<lparr>left_shoulder = (1/2, 1/2), left_elbow = (1/2, 3/8), left_wrist = (1/4, 1/8),
     right_shoulder = (1/4, 1/4), nose = (3/8, 1/4), left_hip = (1/2, 1/2),
     left_knee = (1/2, 3/4), left_ankle = (1/4, 1), right_hip = (1/4, 1/2),
     right_knee = (1/4, 3/4), right_ankle = (1/4, 1)\<rparr>"

text \<open>
  Phase data of ten stance, three backlift and one downswing sample with rotation 10,
  shift 2 and backlift ratio 0.3.
\<close>

definition defensive_data :: phase_data where
  "defensive_data = (\<lambda>p. case p of
       STANCE \<Rightarrow> \<lparr>knee_angles = replicate 10 150, leg_directions = replicate 10 0,
                  head_directions = replicate 10 0, body_directions = replicate 10 0,
                  weight_transfers = replicate 10 0, elbow_angles = []\<rparr>
     | BACKLIFT \<Rightarrow> \<lparr>knee_angles = replicate 3 150, leg_directions = replicate 3 0,
                  head_directions = replicate 3 0, body_directions = replicate 3 5,
                  weight_transfers = replicate 3 0, elbow_angles = []\<rparr>
     | DOWNSWING \<Rightarrow> \<lparr>knee_angles = [160], leg_directions = [0],
                  head_directions = [0], body_directions = [10],
                  weight_transfers = [1/50], elbow_angles = [170]\<rparr>
     | _ \<Rightarrow> empty_metrics)"

section \<open>The classifier is a first-match cascade\<close>

text \<open>
  Claim C2. The classifier evaluates its seven rules as an ordered cascade: its result is
  the outcome of the first rule, in the order of the specification, whose predicate holds.
  So whenever the predicate of rule 1 holds the result is (DEFENSIVE, 0.85), whatever later
  predicates hold too; in particular for any phase data with rotation 10, shift 2 and
  backlift ratio 0.3.
\<close>

theorem detect_shot_type_first_match:
  "first_match shot_rules (features_of pd) = Some (detect_shot_type pd)
   \<and> (body_rotation pd < 15 \<and> \<bar>weight_shift pd\<bar> < 5 \<and> backlift_height pd < 0.5
        \<longrightarrow> detect_shot_type pd = (''DEFENSIVE'', 0.85))
   \<and> (body_rotation pd = 10 \<and> weight_shift pd = 2 \<and> backlift_height pd = 0.3
        \<longrightarrow> detect_shot_type pd = (''DEFENSIVE'', 0.85))"
  by (simp add: detect_shot_type_def shot_rules_def features_of_def Let_def)

theorem detect_shot_type_first_match_witness:
  "body_rotation defensive_data = 10 \<and> weight_shift defensive_data = 2
   \<and> backlift_height defensive_data = 0.3
   \<and> detect_shot_type defensive_data = (''DEFENSIVE'', 0.85)"
proof -
  have r: "body_rotation defensive_data = 10"
    by (simp add: body_rotation_def defensive_data_def np_mean_def sum_list_replicate)
  have s: "weight_shift defensive_data = 2"
    by (simp add: weight_shift_def defensive_data_def np_mean_def sum_list_replicate)
  have h: "backlift_height defensive_data = 0.3"
    by (simp add: backlift_height_def defensive_data_def)
  show ?thesis
    using detect_shot_type_first_match [of defensive_data] r s h by simp
qed

section \<open>Lemmas on the phase segmenter\<close>

lemma detect_phase_transitions:
  "detect_phase lm p = transition3 lm (transition2 lm (transition1 lm (resolve_unknown p)))"
  by (simp add: detect_phase_def transition1_def transition2_def transition3_def
      resolve_unknown_def Let_def mult.commute)

lemma detect_phase_not_unknown: "detect_phase lm s \<noteq> UNKNOWN"
  by (cases s) (simp_all add: detect_phase_def Let_def)

lemma detect_phase_mono: "stage_rank s \<le> stage_rank (detect_phase lm s)"
  by (cases s) (simp_all add: detect_phase_def Let_def)

lemma detect_phase_backlift:
  "detect_phase lm s = BACKLIFT \<Longrightarrow> snd (left_wrist lm) \<le> 0.9 * snd (nose lm)"
  by (cases s) (auto simp: detect_phase_def Let_def split: if_splits)

lemma store_metrics_same:
  "s \<noteq> UNKNOWN \<Longrightarrow> store_metrics lm s pd s =
     \<lparr>knee_angles = knee_angles (pd s) @ [left_knee_angle lm],
      leg_directions = leg_directions (pd s) @ [front_leg_direction lm],
      head_directions = head_directions (pd s) @ [head_direction lm],
      body_directions = body_directions (pd s) @ [body_direction lm],
      weight_transfers = weight_transfers (pd s) @ [weight_transfer lm],
      elbow_angles = (if s = DOWNSWING then elbow_angles (pd s) @ [elbow_angle lm]
                      else elbow_angles (pd s))\<rparr>"
  by (simp add: store_metrics_def Let_def)

lemma store_metrics_other: "q \<noteq> s \<Longrightarrow> store_metrics lm s pd q = pd q"
  by (simp add: store_metrics_def Let_def)

lemma stage_process_frame: "stage (process_frame lm st) = detect_phase lm (stage st)"
  by (simp add: process_frame_def Let_def)

lemma phase_data_process_frame:
  "phase_data (process_frame lm st) = store_metrics lm (detect_phase lm (stage st)) (phase_data st)"
  by (simp add: process_frame_def Let_def)

lemma read_frame_mono: "stage_rank (stage st) \<le> stage_rank (stage (read_frame f st))"
  by (cases f) (simp_all add: read_frame_def stage_process_frame detect_phase_mono)

lemma recorded_lower_bound:
  "r \<in> set (recorded fs st) \<Longrightarrow> stage_rank (stage st) \<le> stage_rank (fst r)"
proof (induction fs arbitrary: st)
  case Nil
  then show ?case by simp
next
  case (Cons f fs)
  have m: "stage_rank (stage st) \<le> stage_rank (stage (read_frame f st))"
    by (rule read_frame_mono)
  from Cons.prems consider "r \<in> set (case f of None \<Rightarrow> [] | Some lm \<Rightarrow> [(stage (read_frame f st), lm)])"
    | "r \<in> set (recorded fs (read_frame f st))"
    by (auto simp: Let_def split: if_splits)
  then show ?case
  proof cases
    case 1
    then show ?thesis using m by (cases f) auto
  next
    case 2
    from Cons.IH [OF 2] m show ?thesis by (rule order_trans [rotated])
  qed
qed

lemma recorded_sorted: "sorted (map (stage_rank \<circ> fst) (recorded fs st))"
proof (induction fs arbitrary: st)
  case Nil
  show ?case by simp
next
  case (Cons f fs)
  show ?case
  proof (cases f)
    case None
    then show ?thesis using Cons [of "read_frame f st"] by (simp add: Let_def)
  next
    case (Some lm)
    then show ?thesis
      using Cons [of "read_frame f st"] recorded_lower_bound [of _ fs "read_frame f st"]
      by (simp add: Let_def)
  qed
qed

lemma recorded_backlift:
  "(p, lm) \<in> set (recorded fs st) \<Longrightarrow> p = BACKLIFT \<Longrightarrow> snd (left_wrist lm) \<le> 0.9 * snd (nose lm)"
proof (induction fs arbitrary: st)
  case Nil
  then show ?case by simp
next
  case (Cons f fs)
  from Cons.prems(1) consider
      "(p, lm) \<in> set (case f of None \<Rightarrow> [] | Some lm \<Rightarrow> [(stage (read_frame f st), lm)])"
    | "(p, lm) \<in> set (recorded fs (read_frame f st))"
    by (auto simp: Let_def split: if_splits)
  then show ?case
  proof cases
    case 1
    then have "p = detect_phase lm (stage st)"
      by (cases f) (auto simp: read_frame_def stage_process_frame)
    with Cons.prems(2) show ?thesis
      using detect_phase_backlift [of lm "stage st"] by simp
  next
    case 2
    then show ?thesis using Cons.IH Cons.prems(2) by blast
  qed
qed

lemma read_frame_phase_data:
  "phase_data (read_frame f st) q =
     (case f of None \<Rightarrow> phase_data st q
      | Some lm \<Rightarrow> if stage (read_frame f st) = q then store_metrics lm q (phase_data st) q
                   else phase_data st q)"
  by (cases f) (auto simp: read_frame_def stage_process_frame phase_data_process_frame store_metrics_other)

lemma run_frames_accumulates:
  assumes "q \<noteq> UNKNOWN"
  shows "knee_angles (phase_data (run_frames fs st) q)
           = knee_angles (phase_data st q) @ map left_knee_angle (samples_of q (recorded fs st))
       \<and> leg_directions (phase_data (run_frames fs st) q)
           = leg_directions (phase_data st q) @ map front_leg_direction (samples_of q (recorded fs st))
       \<and> head_directions (phase_data (run_frames fs st) q)
           = head_directions (phase_data st q) @ map head_direction (samples_of q (recorded fs st))
       \<and> body_directions (phase_data (run_frames fs st) q)
           = body_directions (phase_data st q) @ map body_direction (samples_of q (recorded fs st))
       \<and> weight_transfers (phase_data (run_frames fs st) q)
           = weight_transfers (phase_data st q) @ map weight_transfer (samples_of q (recorded fs st))"
proof (induction fs arbitrary: st)
  case Nil
  show ?case by (simp add: samples_of_def)
next
  case (Cons f fs)
  show ?case
  proof (cases f)
    case None
    then show ?thesis using Cons.IH [of "read_frame f st"]
      by (simp add: Let_def read_frame_def samples_of_def)
  next
    case (Some lm)
    then show ?thesis using Cons.IH [of "read_frame f st"] assms
      by (auto simp add: Let_def read_frame_phase_data store_metrics_same samples_of_def)
  qed
qed


lemma body_direction_downswing_frame: "body_direction downswing_frame = 45"
  by (simp add: body_direction_def calculate_vector_angle_def downswing_frame_def arctan2_def
      degrees_def arctan_one)

lemma weight_transfer_downswing_frame: "weight_transfer downswing_frame = 1/8"
  by (simp add: weight_transfer_def downswing_frame_def)

lemma detect_phase_downswing_frame: "detect_phase downswing_frame UNKNOWN = DOWNSWING"
  by (simp add: detect_phase_def downswing_frame_def)

lemma detect_phase_cascade_frame: "detect_phase cascade_frame UNKNOWN = FOLLOW_THROUGH"
  by (simp add: detect_phase_def cascade_frame_def)

lemma detect_phase_backlift_frame: "detect_phase backlift_frame UNKNOWN = BACKLIFT"
  by (simp add: detect_phase_def backlift_frame_def)

lemma detect_phase_downswing_frame': "detect_phase downswing_frame BACKLIFT = DOWNSWING"
  by (simp add: detect_phase_def downswing_frame_def)

text \<open>
  Claim C3. On a frame with landmarks the phase after the frame is transition 3 applied to
  transition 2 applied to transition 1 of the (resolved) phase before it, so each guard reads
  the phase as the earlier checks of the same frame left it; on \<open>cascade_frame\<close> all three
  fire from the initial state. The frame's five samples are appended to the accumulator of
  the resulting phase, the elbow angle as well exactly when that phase is \<open>DOWNSWING\<close>,
  and no other accumulator changes.
\<close>

theorem process_frame_cascade:
  "stage (process_frame lm st)
     = transition3 lm (transition2 lm (transition1 lm (resolve_unknown (stage st))))
   \<and> stage (process_frame cascade_frame initial_state) = FOLLOW_THROUGH
   \<and> (let p = stage (process_frame lm st);
           old = phase_data st p;
           new = phase_data (process_frame lm st) p
       in knee_angles new = knee_angles old @ [left_knee_angle lm]
        \<and> leg_directions new = leg_directions old @ [front_leg_direction lm]
        \<and> body_directions new = body_directions old @ [body_direction lm]
        \<and> head_directions new = head_directions old @ [head_direction lm]
        \<and> weight_transfers new = weight_transfers old @ [weight_transfer lm]
        \<and> elbow_angles new = (if p = DOWNSWING then elbow_angles old @ [elbow_angle lm]
                               else elbow_angles old)
        \<and> (\<forall>q. q \<noteq> p \<longrightarrow> phase_data (process_frame lm st) q = phase_data st q))"
  using detect_phase_not_unknown [of lm "stage st"]
  by (simp add: Let_def stage_process_frame phase_data_process_frame
      detect_phase_transitions [symmetric] store_metrics_same store_metrics_other
      initial_state_def detect_phase_cascade_frame)

theorem process_frame_cascade_witness:
  "stage (process_frame downswing_frame initial_state) = DOWNSWING
   \<and> body_directions (phase_data (process_frame downswing_frame initial_state) DOWNSWING)
       = [body_direction downswing_frame]
   \<and> elbow_angles (phase_data (process_frame downswing_frame initial_state) DOWNSWING)
       = [elbow_angle downswing_frame]
   \<and> STANCE \<noteq> DOWNSWING
   \<and> phase_data (process_frame downswing_frame initial_state) STANCE = empty_metrics"
proof -
  have s: "stage (process_frame downswing_frame initial_state) = DOWNSWING"
    by (simp add: stage_process_frame initial_state_def detect_phase_downswing_frame)
  have e: "phase_data initial_state = (\<lambda>_. empty_metrics)"
    by (simp add: initial_state_def empty_phase_data_def)
  show ?thesis
    using process_frame_cascade [of downswing_frame initial_state] s
    by (simp add: Let_def e empty_metrics_def)
qed

text \<open>
  Claim C4. The phases recorded over the processed frames of a run are non-decreasing in
  the order \<open>STANCE < BACKLIFT < DOWNSWING < FOLLOW_THROUGH\<close>, for every frame sequence.
\<close>

theorem recorded_phases_sorted: "sorted (map stage_rank (recorded_phases frames))"
  using recorded_sorted [of frames initial_state] by (simp add: recorded_phases_def)

text \<open>
  Claim C10. After a run, the \<open>BACKLIFT\<close> accumulator holds exactly the samples of the frames
  recorded under \<open>BACKLIFT\<close>, and in each of those frames the wrist's \<open>y\<close> is at most 0.9
  times the nose's. A frame whose wrist \<open>y\<close> lies strictly between 0.9 and 1.1 times the
  nose's never ends in \<open>BACKLIFT\<close>: coming from \<open>STANCE\<close> or \<open>BACKLIFT\<close>, check 1 sets
  \<open>BACKLIFT\<close> and check 2 fires on it at once.
\<close>

theorem backlift_samples_wrist:
  "(let acc = phase_data (run_frames frames initial_state) BACKLIFT;
        fs = frames_recorded_in BACKLIFT frames
    in knee_angles acc = map left_knee_angle fs
     \<and> leg_directions acc = map front_leg_direction fs
     \<and> head_directions acc = map head_direction fs
     \<and> body_directions acc = map body_direction fs
     \<and> weight_transfers acc = map weight_transfer fs
     \<and> (\<forall>lm \<in> set fs. snd (left_wrist lm) \<le> 0.9 * snd (nose lm)))
   \<and> (0.9 * snd (nose lm) < snd (left_wrist lm) \<and> snd (left_wrist lm) < 1.1 * snd (nose lm)
        \<longrightarrow> stage (process_frame lm st) \<noteq> BACKLIFT
          \<and> (stage st \<in> {UNKNOWN, STANCE, BACKLIFT}
               \<longrightarrow> transition1 lm (resolve_unknown (stage st)) = BACKLIFT
                 \<and> transition2 lm BACKLIFT = DOWNSWING))"
proof -
  have acc: "knee_angles (phase_data (run_frames frames initial_state) BACKLIFT)
               = map left_knee_angle (frames_recorded_in BACKLIFT frames)
           \<and> leg_directions (phase_data (run_frames frames initial_state) BACKLIFT)
               = map front_leg_direction (frames_recorded_in BACKLIFT frames)
           \<and> head_directions (phase_data (run_frames frames initial_state) BACKLIFT)
               = map head_direction (frames_recorded_in BACKLIFT frames)
           \<and> body_directions (phase_data (run_frames frames initial_state) BACKLIFT)
               = map body_direction (frames_recorded_in BACKLIFT frames)
           \<and> weight_transfers (phase_data (run_frames frames initial_state) BACKLIFT)
               = map weight_transfer (frames_recorded_in BACKLIFT frames)"
    using run_frames_accumulates [of BACKLIFT frames initial_state]
    by (simp add: frames_recorded_in_def samples_of_def initial_state_def empty_phase_data_def
        empty_metrics_def)
  have wrist: "\<forall>lm \<in> set (frames_recorded_in BACKLIFT frames).
                 snd (left_wrist lm) \<le> 0.9 * snd (nose lm)"
    using recorded_backlift [of BACKLIFT _ frames initial_state]
    by (auto simp: frames_recorded_in_def samples_of_def)
  have band: "0.9 * snd (nose lm) < snd (left_wrist lm) \<Longrightarrow> stage (process_frame lm st) \<noteq> BACKLIFT"
    using detect_phase_backlift [of lm "stage st"] by (auto simp: stage_process_frame)
  have fire: "0.9 * snd (nose lm) < snd (left_wrist lm) \<Longrightarrow> snd (left_wrist lm) < 1.1 * snd (nose lm)
      \<Longrightarrow> stage st \<in> {UNKNOWN, STANCE, BACKLIFT}
      \<Longrightarrow> transition1 lm (resolve_unknown (stage st)) = BACKLIFT \<and> transition2 lm BACKLIFT = DOWNSWING"
    by (auto simp: transition1_def transition2_def resolve_unknown_def)
  show ?thesis
    unfolding Let_def using acc wrist band fire by blast
qed

theorem backlift_samples_wrist_witness:
  "frames_recorded_in BACKLIFT [Some backlift_frame, Some downswing_frame] = [backlift_frame]
   \<and> snd (left_wrist backlift_frame) \<le> 0.9 * snd (nose backlift_frame)
   \<and> 0.9 * snd (nose downswing_frame) < snd (left_wrist downswing_frame)
   \<and> snd (left_wrist downswing_frame) < 1.1 * snd (nose downswing_frame)
   \<and> stage initial_state \<in> {UNKNOWN, STANCE, BACKLIFT}
   \<and> stage (process_frame downswing_frame initial_state) \<noteq> BACKLIFT
   \<and> transition1 downswing_frame (resolve_unknown (stage initial_state)) = BACKLIFT
   \<and> transition2 downswing_frame BACKLIFT = DOWNSWING"
proof -
  have r: "frames_recorded_in BACKLIFT [Some backlift_frame, Some downswing_frame] = [backlift_frame]"
    by (simp add: frames_recorded_in_def samples_of_def read_frame_def stage_process_frame Let_def
        enough_follow_through_def initial_state_def detect_phase_backlift_frame
        detect_phase_downswing_frame')
  have b: "0.9 * snd (nose downswing_frame) < snd (left_wrist downswing_frame)
           \<and> snd (left_wrist downswing_frame) < 1.1 * snd (nose downswing_frame)"
    by (simp add: downswing_frame_def)
  have i: "stage initial_state \<in> {UNKNOWN, STANCE, BACKLIFT}"
    by (simp add: initial_state_def)
  show ?thesis
    using backlift_samples_wrist [of "[Some backlift_frame, Some downswing_frame]"
        downswing_frame initial_state] r b i
    by (auto simp: Let_def)
qed

section \<open>The classifier's features and the aggregator\<close>

lemma phase_data_single_downswing:
  "phase_data (run_frames [Some downswing_frame] initial_state)
     = store_metrics downswing_frame DOWNSWING empty_phase_data"
  by (simp add: read_frame_def process_frame_def detect_phase_downswing_frame initial_state_def
      Let_def enough_follow_through_def)

text \<open>
  Claim C5, as stated, fails: on a run of the single frame \<open>downswing_frame\<close> the \<open>STANCE\<close>
  accumulator is empty and the \<open>DOWNSWING\<close> one is not, so the classifier's rotation and
  shift are 0 while the aggregator reports a rotation of 45 and a weight transfer of 12.5.
\<close>

theorem classifier_features_counterexample:
  "body_rotation (phase_data (run_frames [Some downswing_frame] initial_state)) = 0
   \<and> body_rotation_total (analyze_cricket_shot [Some downswing_frame]) = Some 45
   \<and> weight_shift (phase_data (run_frames [Some downswing_frame] initial_state)) = 0
   \<and> weight_transfer_amount (analyze_cricket_shot [Some downswing_frame]) = Some (25/2)"
  unfolding analyze_cricket_shot_def phase_data_single_downswing
  by (simp add: body_rotation_def weight_shift_def final_metrics_def store_metrics_def
      empty_phase_data_def empty_metrics_def Let_def get_avg_def get_last_def
      body_direction_downswing_frame weight_transfer_downswing_frame)

text \<open>
  Claim C5, amended. The aggregator's \<open>body_rotation_total\<close> and \<open>weight_transfer_amount\<close>
  follow the formulas with mean and last of an empty list taken as 0. The classifier's
  rotation and shift equal them when both the \<open>STANCE\<close> and the \<open>DOWNSWING\<close> list are
  non-empty, and are 0 when either list is empty.
\<close>

theorem classifier_features_guarded:
  "body_rotation_total (final_metrics pd)
      = Some \<bar>get_avg (body_directions (pd STANCE)) - get_last (body_directions (pd DOWNSWING))\<bar>
   \<and> weight_transfer_amount (final_metrics pd)
      = Some ((get_last (weight_transfers (pd DOWNSWING))
               - get_avg (weight_transfers (pd STANCE))) * 100)
   \<and> (body_directions (pd STANCE) \<noteq> [] \<and> body_directions (pd DOWNSWING) \<noteq> []
        \<longrightarrow> body_rotation_total (final_metrics pd) = Some (body_rotation pd))
   \<and> (body_directions (pd STANCE) = [] \<or> body_directions (pd DOWNSWING) = []
        \<longrightarrow> body_rotation pd = 0)
   \<and> (weight_transfers (pd STANCE) \<noteq> [] \<and> weight_transfers (pd DOWNSWING) \<noteq> []
        \<longrightarrow> weight_transfer_amount (final_metrics pd) = Some (weight_shift pd))
   \<and> (weight_transfers (pd STANCE) = [] \<or> weight_transfers (pd DOWNSWING) = []
        \<longrightarrow> weight_shift pd = 0)"
  by (simp add: final_metrics_def Let_def body_rotation_def weight_shift_def get_avg_def
      get_last_def)

theorem classifier_features_guarded_witness:
  "body_directions (defensive_data STANCE) \<noteq> [] \<and> body_directions (defensive_data DOWNSWING) \<noteq> []
   \<and> weight_transfers (defensive_data STANCE) \<noteq> []
   \<and> weight_transfers (defensive_data DOWNSWING) \<noteq> []
   \<and> body_rotation_total (final_metrics defensive_data) = Some (body_rotation defensive_data)
   \<and> weight_transfer_amount (final_metrics defensive_data) = Some (weight_shift defensive_data)
   \<and> body_rotation defensive_data = 10 \<and> weight_shift defensive_data = 2"
proof -
  have n: "body_directions (defensive_data STANCE) \<noteq> []
           \<and> body_directions (defensive_data DOWNSWING) \<noteq> []
           \<and> weight_transfers (defensive_data STANCE) \<noteq> []
           \<and> weight_transfers (defensive_data DOWNSWING) \<noteq> []"
    by (simp add: defensive_data_def)
  have r: "body_rotation defensive_data = 10"
    by (simp add: body_rotation_def defensive_data_def np_mean_def sum_list_replicate)
  have s: "weight_shift defensive_data = 2"
    by (simp add: weight_shift_def defensive_data_def np_mean_def sum_list_replicate)
  show ?thesis
    using classifier_features_guarded [of defensive_data, THEN conjunct2, THEN conjunct2] n r s
    by simp
qed

section \<open>Runs without landmarks\<close>

lemma final_metrics_empty:
  "final_metrics empty_phase_data =
     \<lparr>stance_body_direction = Some 0, impact_body_direction = Some 0,
      body_rotation_over_time = Some [], stance_leg_direction = Some 0,
      impact_leg_direction = Some 0, weight_transfer_amount = Some 0,
      max_elbow_angle = Some 0, stance_knee_angle = Some 0, downswing_knee_angle = Some 0,
      stance_head_direction = Some 0, downswing_head_direction = Some 0,
      shot_type = Some ''DEFENSIVE'', shot_confidence = Some 0.85,
      body_rotation_total = Some 0, head_movement = Some 0, knee_bracing = Some 0\<rparr>"
  by (simp add: final_metrics_def detect_shot_type_def body_rotation_def weight_shift_def
      backlift_height_def empty_phase_data_def empty_metrics_def Let_def get_avg_def get_last_def)














section \<open>The metric score\<close>

lemma score_inside:
  "lo \<le> v \<Longrightarrow> v \<le> hi \<Longrightarrow>
     calculate_metric_score v (lo, hi)
       = (if (hi - lo) / 2 = 0 then 100 else 100 - 20 * \<bar>v - (lo + hi) / 2\<bar> / ((hi - lo) / 2))"
  by (auto simp: calculate_metric_score_def Let_def)

lemma ratio_bounds:
  fixes d h :: real
  shows "0 \<le> d \<Longrightarrow> d \<le> h \<Longrightarrow> 0 < h \<Longrightarrow> 80 \<le> 100 - 20 * d / h \<and> 100 - 20 * d / h \<le> 100"
    and "h \<noteq> 0 \<Longrightarrow> 100 - 20 * h / h = 80"
  by (simp_all add: field_simps)

lemma inside_dist:
  fixes lo v hi :: real
  shows "lo \<le> v \<Longrightarrow> v \<le> hi \<Longrightarrow> \<bar>v - (lo + hi) / 2\<bar> \<le> (hi - lo) / 2"
  by (simp add: abs_le_iff field_simps)

lemma outside_dist:
  fixes lo v hi :: real
  shows "lo \<le> hi \<Longrightarrow> \<not> (lo \<le> v \<and> v \<le> hi) \<Longrightarrow> (hi - lo) / 2 < \<bar>v - (lo + hi) / 2\<bar>"
  by (auto simp: abs_if field_simps)

lemma edge_distance:
  fixes lo v hi :: real
  shows "lo \<le> hi \<Longrightarrow> \<not> (lo \<le> v \<and> v \<le> hi)
           \<Longrightarrow> min \<bar>v - lo\<bar> \<bar>v - hi\<bar> = \<bar>v - (lo + hi) / 2\<bar> - (hi - lo) / 2"
  by (auto simp: abs_if min_def field_simps)

lemma score_outside_edge:
  assumes "lo \<le> hi" "\<not> (lo \<le> v \<and> v \<le> hi)"
  shows "calculate_metric_score v (lo, hi) = max (80 - min (2 * min \<bar>v - lo\<bar> \<bar>v - hi\<bar>) 50) 20"
proof (cases "v < lo")
  case True
  then have "min \<bar>v - lo\<bar> \<bar>v - hi\<bar> = lo - v" using assms by arith
  then show ?thesis using True by (simp add: calculate_metric_score_def Let_def mult.commute)
next
  case False
  then have "min \<bar>v - lo\<bar> \<bar>v - hi\<bar> = v - hi" using assms by arith
  then show ?thesis using False assms by (simp add: calculate_metric_score_def Let_def mult.commute)
qed

lemma score_outside:
  assumes "lo \<le> hi" "\<not> (lo \<le> v \<and> v \<le> hi)"
  shows "calculate_metric_score v (lo, hi)
           = max (80 - min (2 * (\<bar>v - (lo + hi) / 2\<bar> - (hi - lo) / 2)) 50) 20"
  unfolding score_outside_edge [OF assms] edge_distance [OF assms] ..

lemma score_at_edge:
  assumes "lo \<le> v" "v \<le> hi" "\<bar>v - (lo + hi) / 2\<bar> = (hi - lo) / 2"
  shows "calculate_metric_score v (lo, hi) = (if hi = lo then 100 else 80)"
proof (cases "hi = lo")
  case True
  then show ?thesis using assms by (simp add: score_inside)
next
  case False
  then have n: "(hi - lo) / 2 \<noteq> 0" by simp
  have "calculate_metric_score v (lo, hi) = 100 - 20 * \<bar>v - (lo + hi) / 2\<bar> / ((hi - lo) / 2)"
    using score_inside [OF assms(1,2)] n by simp
  also have "\<dots> = 100 - 20 * ((hi - lo) / 2) / ((hi - lo) / 2)"
    unfolding assms(3) ..
  also have "\<dots> = 80" using ratio_bounds(2) [OF n] .
  finally show ?thesis using False by simp
qed

lemma score_bounds: assumes "lo \<le> hi"
  shows "20 \<le> calculate_metric_score v (lo, hi) \<and> calculate_metric_score v (lo, hi) \<le> 100"
proof (cases "lo \<le> v \<and> v \<le> hi")
  case True
  show ?thesis
  proof (cases "(hi - lo) / 2 = 0")
    case True
    then show ?thesis using \<open>lo \<le> v \<and> v \<le> hi\<close> by (simp add: score_inside)
  next
    case False
    then have p: "0 < (hi - lo) / 2" using assms by simp
    have d: "\<bar>v - (lo + hi) / 2\<bar> \<le> (hi - lo) / 2" using True inside_dist [of lo v hi] by simp
    show ?thesis
      using ratio_bounds(1) [OF _ d p] score_inside [of lo v hi] True False by simp
  qed
next
  case False
  have "0 \<le> min (2 * min \<bar>v - lo\<bar> \<bar>v - hi\<bar>) 50" by simp
  then show ?thesis unfolding score_outside_edge [OF assms False] by linarith
qed

lemma score_outside_le: assumes "lo \<le> hi" "\<not> (lo \<le> v \<and> v \<le> hi)"
  shows "calculate_metric_score v (lo, hi) \<le> 80"
  using score_outside [OF assms] outside_dist [OF assms] by simp

lemma score_mono:
  assumes "lo \<le> hi" "(hi - lo) / 2 \<le> \<bar>v - (lo + hi) / 2\<bar>" "\<bar>v - (lo + hi) / 2\<bar> \<le> \<bar>w - (lo + hi) / 2\<bar>"
  shows "calculate_metric_score w (lo, hi) \<le> calculate_metric_score v (lo, hi)"
proof (cases "lo \<le> v \<and> v \<le> hi")
  case vin: True
  then have ev: "\<bar>v - (lo + hi) / 2\<bar> = (hi - lo) / 2" using assms(2) inside_dist [of lo v hi] by simp
  show ?thesis
  proof (cases "lo \<le> w \<and> w \<le> hi")
    case True
    then have "\<bar>w - (lo + hi) / 2\<bar> = (hi - lo) / 2" using assms(3) ev inside_dist [of lo w hi] by simp
    then show ?thesis using True vin ev by (simp add: score_at_edge)
  next
    case False
    then have "calculate_metric_score w (lo, hi) \<le> 80" using assms(1) by (rule score_outside_le [rotated])
    moreover have "80 \<le> calculate_metric_score v (lo, hi)" using vin ev by (simp add: score_at_edge)
    ultimately show ?thesis by simp
  qed
next
  case vout: False
  have "\<not> (lo \<le> w \<and> w \<le> hi)"
  proof
    assume "lo \<le> w \<and> w \<le> hi"
    then have "\<bar>w - (lo + hi) / 2\<bar> \<le> (hi - lo) / 2" using inside_dist [of lo w hi] by simp
    then show False using outside_dist [OF assms(1) vout] assms(3) by simp
  qed
  then show ?thesis using score_outside [OF assms(1) vout] score_outside [OF assms(1), of w] assms(3)
    by (simp add: max_def min_def)
qed

text \<open>
  Claim C6. For a band \<open>(lo, hi)\<close> with \<open>lo \<le> hi\<close>, midpoint \<open>mid\<close> and half-width \<open>half\<close>:
  inside the band the score is \<open>100 - 20 * \<bar>v - mid\<bar> / half\<close> (100 when \<open>half = 0\<close>); outside
  it is \<open>80 - min (2 * distance to the nearest edge) 50\<close>, floored at 20. So the score of
  the midpoint is 100, every score lies between 20 and 100, and from the band's edge
  outwards a larger distance from the midpoint never gives a larger score.
\<close>

theorem metric_score_shape:
  assumes "lo \<le> hi"
  shows "(let mid = (lo + hi) / 2; half = (hi - lo) / 2
          in (lo \<le> v \<and> v \<le> hi \<longrightarrow>
                calculate_metric_score v (lo, hi)
                  = (if half = 0 then 100 else 100 - 20 * \<bar>v - mid\<bar> / half))
           \<and> (\<not> (lo \<le> v \<and> v \<le> hi) \<longrightarrow>
                calculate_metric_score v (lo, hi)
                  = max (80 - min (2 * min \<bar>v - lo\<bar> \<bar>v - hi\<bar>) 50) 20)
           \<and> calculate_metric_score mid (lo, hi) = 100
           \<and> 20 \<le> calculate_metric_score v (lo, hi)
           \<and> calculate_metric_score v (lo, hi) \<le> 100
           \<and> (half \<le> \<bar>v - mid\<bar> \<and> \<bar>v - mid\<bar> \<le> \<bar>w - mid\<bar> \<longrightarrow>
                calculate_metric_score w (lo, hi) \<le> calculate_metric_score v (lo, hi)))"
proof -
  have mid: "calculate_metric_score ((lo + hi) / 2) (lo, hi) = 100"
    using assms by (simp add: score_inside)
  show ?thesis
    unfolding Let_def
    using score_inside [of lo v hi] score_outside_edge [OF assms, of v] mid
      score_bounds [OF assms, of v] score_mono [OF assms, of v w]
    by blast
qed

theorem metric_score_shape_witness:
  "(165::real) \<le> 180
   \<and> \<not> (165 \<le> (190::real) \<and> (190::real) \<le> 180)
   \<and> (180 - 165) / 2 \<le> \<bar>190 - (165 + 180) / 2 :: real\<bar>
   \<and> \<bar>190 - (165 + 180) / 2 :: real\<bar> \<le> \<bar>200 - (165 + 180) / 2\<bar>
   \<and> calculate_metric_score 190 (165, 180) = 60
   \<and> calculate_metric_score 200 (165, 180) \<le> calculate_metric_score 190 (165, 180)"
proof -
  have h: "(165::real) \<le> 180" by simp
  show ?thesis
    using metric_score_shape [OF h, of 190 200] by (simp add: Let_def)
qed

section \<open>The two-attempt comparison\<close>

lemma metric_value_shot_type: "metric_value (m\<lparr>shot_type := c\<rparr>) k = metric_value m k"
  by (simp add: metric_value_def)

lemma compare_metric_shot_type:
  "compare_metric orig (fu\<lparr>shot_type := c\<rparr>) shot = compare_metric orig fu shot"
  unfolding compare_metric_def metric_value_shot_type ..

lemma accuracy_shot_type:
  "calculate_overall_accuracy (m\<lparr>shot_type := c\<rparr>) shot = calculate_overall_accuracy m shot"
  unfolding calculate_overall_accuracy_def metric_value_shot_type ..

text \<open>
  Claim C7. The follow-up record's category is recorded and nothing else: replacing it by
  any other value (or removing it) changes the result of \<open>analyze_improvement\<close> in the field
  \<open>followup_shot_type\<close> only. Bands, scores, deltas, both accuracies and the verdict are
  computed with the original attempt's category.
\<close>

theorem followup_category_only_recorded:
  "analyze_improvement original (followup\<lparr>shot_type := c\<rparr>)
     = (analyze_improvement original followup)
         \<lparr>followup_shot_type := (case c of None \<Rightarrow> ''FORWARD SHOT'' | Some t \<Rightarrow> t)\<rparr>"
proof -
  define shot where "shot = (case shot_type original of None \<Rightarrow> ''FORWARD SHOT'' | Some t \<Rightarrow> t)"
  obtain t1 t2 t3 t4 t5 t6 where t:
    "foldl (compare_metric original followup shot) ([], 0, 0, [], [], []) comparison_metrics
       = (t1, t2, t3, t4, t5, t6)"
    by (cases "foldl (compare_metric original followup shot) ([], 0, 0, [], [], []) comparison_metrics")
  show ?thesis
    unfolding analyze_improvement_def compare_metric_shot_type accuracy_shot_type
    unfolding shot_def [symmetric] t Let_def
    by simp
qed

section \<open>The advice lists\<close>

lemma strengths_loop_length:
  "length (strengths_loop shot items acc n) \<le> length acc + (3 - n)"
proof (induction items arbitrary: acc n)
  case Nil
  show ?case by simp
next
  case (Cons item items)
  obtain metric a where i: "item = (metric, a)" by (cases item)
  show ?case
  proof (cases "a_status a = excellent \<and> n < 3")
    case True
    let ?acc = "acc @ [get_contextual_feedback metric a shot strength]"
    have "length (strengths_loop shot (item # items) acc n)
            = length (strengths_loop shot items ?acc (n + 1))"
      using True i by simp
    also have "\<dots> \<le> length ?acc + (3 - (n + 1))" by (rule Cons.IH)
    also have "\<dots> = length acc + (3 - n)" using True by (simp only: length_append list.size) arith
    finally show ?thesis .
  next
    case False
    then have "strengths_loop shot (item # items) acc n = strengths_loop shot items acc n"
      using i by auto
    then show ?thesis using Cons.IH [of acc n] by simp
  qed
qed

lemma found_strengths_length: "length (found_strengths metrics) \<le> 3"
  using strengths_loop_length [of _ _ "[]" 0] by (simp add: found_strengths_def Let_def)

lemma found_flaws_length: "length (found_flaws metrics) \<le> 4"
  by (simp add: found_flaws_def Let_def)

lemma found_recommendations_length: "length (found_recommendations rnd metrics) \<le> 5"
proof -
  define shot where "shot = (case shot_type metrics of None \<Rightarrow> ''UNKNOWN'' | Some t \<Rightarrow> t)"
  define A where "A = filter (\<lambda>r. r \<noteq> [])
           (map (\<lambda>(metric, a, priority). get_contextual_feedback metric a shot recommendation)
              (take 3 (priority_flaws (analyze_metrics metrics shot))))"
  define B where "B = take 2 (get_shot_specific_recommendations rnd shot)"
  have "length A \<le> length (take 3 (priority_flaws (analyze_metrics metrics shot)))"
    unfolding A_def using length_filter_le [of _ "map _ (take 3 _)"] by (simp only: length_map)
  then have a: "length A \<le> 3" by simp
  have b: "length B \<le> 2" by (simp add: B_def)
  have "found_recommendations rnd metrics = A @ B"
    by (simp add: found_recommendations_def Let_def A_def B_def shot_def)
  then show ?thesis using a b by simp
qed

lemma no_metrics_empty:
  "found_strengths no_metrics = [] \<and> found_flaws no_metrics = []
   \<and> found_recommendations rnd no_metrics = []"
  by (simp add: found_strengths_def found_flaws_def found_recommendations_def no_metrics_def
      analyze_metrics_def priority_flaws_def get_shot_specific_recommendations_def shot_drills_def)

text \<open>
  Claim C8. For every metrics record and every drill index, the advice has at most 3
  strengths, at most 4 flaws and at most 5 recommendations, and none of the three lists is
  empty: a list that would be empty is replaced by the list of its one generic string, and
  a list that is not empty is returned as it is.
\<close>

theorem advice_lists_bounded:
  "(let a = generate_advice rnd metrics
    in length (strengths a) \<le> 3 \<and> length (flaws a) \<le> 4 \<and> length (recommendations a) \<le> 5
     \<and> strengths a \<noteq> [] \<and> flaws a \<noteq> [] \<and> recommendations a \<noteq> []
     \<and> (found_strengths metrics = [] \<longrightarrow> strengths a = [generic_strength])
     \<and> (found_flaws metrics = [] \<longrightarrow> flaws a = [generic_flaw])
     \<and> (found_recommendations rnd metrics = []
          \<longrightarrow> recommendations a = [generic_recommendation])
     \<and> (found_strengths metrics \<noteq> [] \<longrightarrow> strengths a = found_strengths metrics)
     \<and> (found_flaws metrics \<noteq> [] \<longrightarrow> flaws a = found_flaws metrics)
     \<and> (found_recommendations rnd metrics \<noteq> []
          \<longrightarrow> recommendations a = found_recommendations rnd metrics))"
  using found_strengths_length [of metrics] found_flaws_length [of metrics]
    found_recommendations_length [of rnd metrics]
  by (simp add: generate_advice_def Let_def)

theorem advice_lists_bounded_witness:
  "found_strengths no_metrics = [] \<and> found_flaws no_metrics = []
   \<and> found_recommendations 0 no_metrics = []
   \<and> strengths (generate_advice 0 no_metrics) = [generic_strength]
   \<and> flaws (generate_advice 0 no_metrics) = [generic_flaw]
   \<and> recommendations (generate_advice 0 no_metrics) = [generic_recommendation]"
  using advice_lists_bounded [of 0 no_metrics] no_metrics_empty [of 0]
  by (simp add: Let_def)

lemma analyze_metrics_all_zero:
  "analyze_metrics (analyze_cricket_shot []) ''DEFENSIVE'' =
     [(''elbow_angle'', \<lparr>a_value = 0, a_status = poor, a_importance = high\<rparr>),
      (''weight_transfer'', \<lparr>a_value = 0, a_status = excellent, a_importance = medium\<rparr>),
      (''body_rotation'', \<lparr>a_value = 0, a_status = excellent, a_importance = high\<rparr>),
      (''head_stability'', \<lparr>a_value = 0, a_status = excellent, a_importance = high\<rparr>),
      (''stance_knee'', \<lparr>a_value = 0, a_status = poor, a_importance = medium\<rparr>)]"
  by (simp add: analyze_cricket_shot_def initial_state_def final_metrics_empty analyze_metrics_def
      analyze_elbow_angle_def analyze_weight_transfer_def analyze_body_rotation_def
      analyze_head_stability_def analyze_stance_knee_def)

lemma strength_feedback_weight_transfer_defensive:
  "strength_feedback ''weight_transfer'' v ''DEFENSIVE'' = ''''"
  by (simp add: strength_feedback_def)

lemma shot_type_all_zero: "shot_type (analyze_cricket_shot []) = Some ''DEFENSIVE''"
  by (simp add: analyze_cricket_shot_def initial_state_def final_metrics_empty)

text \<open>
  Claim C9 fails on the code. For the all-zero record that the pipeline returns on an
  empty video (category \<open>DEFENSIVE\<close>), the weight transfer 0 is rated excellent, but
  \<open>_get_contextual_feedback\<close> has no strength text for weight transfer on a defensive
  shot and returns the empty string, which \<open>generate_advice\<close> appends to the strengths
  unchecked (only recommendations are tested for emptiness before they are appended).
\<close>

theorem advice_all_zero_empty_strength:
  "strengths (generate_advice 0 (analyze_cricket_shot [])) =
     ['''', strength_feedback ''body_rotation'' 0 ''DEFENSIVE'',
      strength_feedback ''head_stability'' 0 ''DEFENSIVE'']"
  by (simp add: generate_advice_def found_strengths_def shot_type_all_zero analyze_metrics_all_zero
      get_contextual_feedback_def strength_feedback_weight_transfer_defensive Let_def)

end
